theory Spec2Isabelle
  imports Complex_Main "HOL-Library.Sublist"
begin

section \<open>Common model of the Python runtime\<close>

text \<open>
  Exceptions are values. A Python call that may raise returns \<open>pyexn + 'a\<close>, with
  \<open>Inl\<close> carrying the exception. The string of \<open>AttributeError\<close> and of
  \<open>NameError\<close> is the name that could not be resolved; the string of the other
  exceptions is their message.
\<close>

datatype pyexn =
    AttributeError string
  | NameError string
  | ValueError string
  | FileNotFoundError string
  | TypeError string
  | OtherError string

text \<open>
  The exceptions of \<open>pyexn\<close> are of classes under \<open>Exception\<close>: a handler
  \<open>except Exception\<close> catches them. It does not catch an exception of a class that is
  only under \<open>BaseException\<close>, as the cancellation of a task at an \<open>await\<close> is.
  Where the source has such a handler around code that may raise either, what is raised
  is a value of \<open>raised\<close>.
\<close>

datatype base_exception = CancelledError | KeyboardInterrupt | SystemExit | GeneratorExit

datatype raised = Exception pyexn | BaseException base_exception

text \<open>
  The records written by \<open>logging.Logger\<close>. The f-strings of the source are kept as
  a constructor per call site, carrying the interpolated values.
\<close>

datatype log_record =
    LogInfo string
  | WarnFileNotFound string
  | WarnMissingFiles "string list"
  | ErrorVerifyingOutputs pyexn
  | ErrorCoordination pyexn
  | ErrorConfiguringAgents pyexn
  | ErrorNoConfigure string
  | ErrorNoConfig string
  | ErrorInitializingAgent string pyexn

text \<open>
  Truth value of an \<open>Optional[Dict]\<close> in a Python condition: \<open>None\<close> and the
  empty dictionary are false. Such a dictionary is held as the list of its items.
\<close>

fun truthy :: "('k \<times> 'v) list option \<Rightarrow> bool" where
  "truthy None = False"
| "truthy (Some []) = False"
| "truthy (Some (kv # kvs)) = True"

section \<open>core/agent\_orchestrator.py: the communication protocol\<close>

text \<open>
  The names bound at module level in \<open>core/agent_orchestrator.py\<close>: those of its three
  import statements (\<open>from typing import Dict, Any, List\<close>, \<open>import asyncio\<close>,
  \<open>from pathlib import Path\<close>) and its four classes.
\<close>

definition orchestrator_module_names :: "string list" where
  "orchestrator_module_names =
     [''Dict'', ''Any'', ''List'', ''asyncio'', ''Path'',
      ''AgentOrchestrator'', ''AgentCommunicationProtocol'',
      ''WorkflowManager'', ''AgentIntegrationLayer'']"

text \<open>
  Resolution of a name inside a function body: the function's local names, then the
  module's names. (\<open>datetime\<close> is not a builtin of Python, so the builtin scope never
  resolves it.)
\<close>

definition resolve_name :: "string list \<Rightarrow> string \<Rightarrow> pyexn + unit" where
  "resolve_name locals n =
     (if n \<in> set locals \<or> n \<in> set orchestrator_module_names then Inr ()
      else Inl (NameError n))"

record 'c message =
  sender :: string
  receiver :: string
  msg_type :: string
  content :: 'c
  timestamp :: nat

text \<open>
  \<open>AgentCommunicationProtocol.send_message\<close>. The channel is an unbounded
  \<open>asyncio.Queue\<close>, held as the list of its items, oldest first. The dictionary display
  evaluates its values in order, \<open>datetime.now()\<close> last; \<open>now\<close> is the clock reading
  the call would give. Only then is the message put on the channel.
\<close>

definition send_message ::
  "nat \<Rightarrow> string \<Rightarrow> string \<Rightarrow> string \<Rightarrow> 'c \<Rightarrow> 'c message list
     \<Rightarrow> (pyexn + unit) \<times> 'c message list" where
  "send_message now sender' receiver' message_type content' channel =
     (case resolve_name [''sender'', ''receiver'', ''message_type'', ''content'', ''channel'',
                         ''message''] ''datetime'' of
        Inl e \<Rightarrow> (Inl e, channel)
      | Inr _ \<Rightarrow>
          (Inr (), channel @ [\<lparr>sender = sender', receiver = receiver',
                                msg_type = message_type, content = content',
                                timestamp = now\<rparr>]))"

text \<open>\<open>AgentCommunicationProtocol.request_feedback\<close>: one call of \<open>send_message\<close>.\<close>

definition request_feedback ::
  "nat \<Rightarrow> string \<Rightarrow> 'c \<Rightarrow> 'c message list \<Rightarrow> (pyexn + unit) \<times> 'c message list" where
  "request_feedback now agent results supervisor_queue =
     send_message now agent ''supervisor'' ''feedback_request'' results supervisor_queue"

section \<open>Python floats\<close>

text \<open>
  A Python \<open>float\<close> is an IEEE 754 binary64 number: a finite value, an infinity or a
  NaN. A finite value is held as the real number it denotes (the sign of a zero is not
  kept: it does not show in products, sums and comparisons of finite results).
\<close>

datatype double = Finite real | PlusInfinity | MinusInfinity | NotANumber

text \<open>Rounding of a real to an integer, a tie going to the even neighbour.\<close>

definition round_half_even :: "real \<Rightarrow> int" where
  "round_half_even y =
     (let f = \<lfloor>y\<rfloor>
      in if y - of_int f < 1 / 2 then f
         else if y - of_int f > 1 / 2 then f + 1
         else if even f then f else f + 1)"

text \<open>
  The binary64 numbers near \<open>x\<close> are the multiples of \<open>2 powi quantum x\<close>: 53
  significant bits at the exponent of \<open>x\<close>, and never finer than \<open>2 powi (- 1074)\<close>,
  the spacing of the subnormal numbers.
\<close>

definition quantum :: "real \<Rightarrow> int" where
  "quantum x = max (\<lfloor>log 2 \<bar>x\<bar>\<rfloor> - 52) (- 1074)"

definition round_nearest :: "real \<Rightarrow> real" where
  "round_nearest x =
     (if x = 0 then 0
      else of_int (round_half_even (x / 2 powi quantum x)) * 2 powi quantum x)"

text \<open>
  The binary64 number that a real result is rounded to (round to nearest, ties to even):
  a result that rounds to \<open>2 ^ 1024\<close> or beyond overflows to an infinity. It is also the
  value of a decimal literal.
\<close>

definition to_double :: "real \<Rightarrow> double" where
  "to_double x =
     (let r = round_nearest x
      in if r \<ge> 2 ^ 1024 then PlusInfinity
         else if r \<le> - (2 ^ 1024) then MinusInfinity
         else Finite r)"

text \<open>The product \<open>x * y\<close> of two floats.\<close>

fun fmul :: "double \<Rightarrow> double \<Rightarrow> double" where
  "fmul (Finite a) (Finite b) = to_double (a * b)"
| "fmul NotANumber y = NotANumber"
| "fmul x NotANumber = NotANumber"
| "fmul (Finite a) PlusInfinity =
     (if a = 0 then NotANumber else if a > 0 then PlusInfinity else MinusInfinity)"
| "fmul (Finite a) MinusInfinity =
     (if a = 0 then NotANumber else if a > 0 then MinusInfinity else PlusInfinity)"
| "fmul PlusInfinity (Finite b) =
     (if b = 0 then NotANumber else if b > 0 then PlusInfinity else MinusInfinity)"
| "fmul MinusInfinity (Finite b) =
     (if b = 0 then NotANumber else if b > 0 then MinusInfinity else PlusInfinity)"
| "fmul PlusInfinity PlusInfinity = PlusInfinity"
| "fmul PlusInfinity MinusInfinity = MinusInfinity"
| "fmul MinusInfinity PlusInfinity = MinusInfinity"
| "fmul MinusInfinity MinusInfinity = PlusInfinity"

text \<open>The sum \<open>x + y\<close> of two floats.\<close>

fun fadd :: "double \<Rightarrow> double \<Rightarrow> double" where
  "fadd (Finite a) (Finite b) = to_double (a + b)"
| "fadd NotANumber y = NotANumber"
| "fadd x NotANumber = NotANumber"
| "fadd (Finite a) PlusInfinity = PlusInfinity"
| "fadd (Finite a) MinusInfinity = MinusInfinity"
| "fadd PlusInfinity (Finite b) = PlusInfinity"
| "fadd MinusInfinity (Finite b) = MinusInfinity"
| "fadd PlusInfinity PlusInfinity = PlusInfinity"
| "fadd PlusInfinity MinusInfinity = NotANumber"
| "fadd MinusInfinity PlusInfinity = NotANumber"
| "fadd MinusInfinity MinusInfinity = MinusInfinity"

text \<open>The comparison \<open>x >= y\<close> of two floats: false when either is a NaN.\<close>

fun fge :: "double \<Rightarrow> double \<Rightarrow> bool" where
  "fge (Finite a) (Finite b) \<longleftrightarrow> a \<ge> b"
| "fge NotANumber y \<longleftrightarrow> False"
| "fge x NotANumber \<longleftrightarrow> False"
| "fge PlusInfinity y \<longleftrightarrow> True"
| "fge x MinusInfinity \<longleftrightarrow> True"
| "fge (Finite a) PlusInfinity \<longleftrightarrow> False"
| "fge MinusInfinity (Finite b) \<longleftrightarrow> False"
| "fge MinusInfinity PlusInfinity \<longleftrightarrow> False"

section \<open>agents/supervisor\_agent.py: the approval verdict\<close>

text \<open>
  \<open>SupervisorAgent._determine_approval_status\<close>. The three scoring methods it calls
  (\<open>_calculate_auto_review_score\<close>, \<open>_calculate_quality_score\<close>,
  \<open>_calculate_user_feedback_score\<close>) are defined nowhere in the repository; they are
  parameters here, each returning a float or raising. The literals \<open>0.8\<close>, \<open>0.4\<close> and
  \<open>0.2\<close> are the floats nearest to them, and every product and sum is rounded.
\<close>

definition quality_threshold :: double where
  "quality_threshold = to_double (8 / 10)"

definition determine_approval_status ::
  "('r \<Rightarrow> pyexn + double) \<Rightarrow> ('q \<Rightarrow> pyexn + double)
     \<Rightarrow> ((string \<times> 'v) list \<Rightarrow> pyexn + double)
     \<Rightarrow> 'r \<Rightarrow> 'q \<Rightarrow> (string \<times> 'v) list option \<Rightarrow> pyexn + string" where
  "determine_approval_status calculate_auto_review_score calculate_quality_score
       calculate_user_feedback_score auto_review quality_eval user_feedback =
     (case calculate_auto_review_score auto_review of
        Inl e \<Rightarrow> Inl e
      | Inr auto_score \<Rightarrow>
     (case calculate_quality_score quality_eval of
        Inl e \<Rightarrow> Inl e
      | Inr quality_score \<Rightarrow>
     (case (if truthy user_feedback
            then calculate_user_feedback_score (the user_feedback)
            else Inr (Finite 1)) of
        Inl e \<Rightarrow> Inl e
      | Inr user_score \<Rightarrow>
          (let final_score =
                 fadd (fadd (fmul auto_score (to_double (4 / 10)))
                            (fmul quality_score (to_double (4 / 10))))
                      (fmul user_score (to_double (2 / 10)))
           in if fge final_score quality_threshold then Inr ''approved''
              else if fge final_score (fmul quality_threshold (to_double (8 / 10)))
              then Inr ''needs_minor_revision''
              else Inr ''needs_major_revision''))))"

text \<open>
  The final score of \<open>_determine_approval_status\<close> as a function of the three
  scores.
\<close>

definition final_score_of :: "double \<Rightarrow> double \<Rightarrow> double \<Rightarrow> double" where
  "final_score_of auto_score quality_score user_score =
     fadd (fadd (fmul auto_score (to_double (4 / 10)))
                (fmul quality_score (to_double (4 / 10))))
          (fmul user_score (to_double (2 / 10)))"

section \<open>agents/supervisor\_agent.py: verification of the outputs\<close>





section \<open>agents/*.py: the agents and their configuration\<close>

text \<open>The eight agent classes that the supervisor registers.\<close>

datatype agent_class =
    ParserAgent | QAAgent | AnalystAgent | StatsAgent
  | WaterMassAgent | ReportAgent | PosterAgent | ResearcherAgent

fun class_name :: "agent_class \<Rightarrow> string" where
  "class_name ParserAgent = ''ParserAgent''"
| "class_name QAAgent = ''QAAgent''"
| "class_name AnalystAgent = ''AnalystAgent''"
| "class_name StatsAgent = ''StatsAgent''"
| "class_name WaterMassAgent = ''WaterMassAgent''"
| "class_name ReportAgent = ''ReportAgent''"
| "class_name PosterAgent = ''PosterAgent''"
| "class_name ResearcherAgent = ''ResearcherAgent''"

text \<open>The methods that each class body defines (none of the classes has a base
  class), in the order of the source.\<close>

fun class_methods :: "agent_class \<Rightarrow> string list" where
  "class_methods ParserAgent =
     [''__init__'', ''process_in_batches'', ''_process_batch'', ''_process_single_file'',
      ''_combine_batch_results'']"
| "class_methods QAAgent =
     [''__init__'', ''configure'', ''check_quality'', ''_check_density_consistency'']"
| "class_methods AnalystAgent =
     [''__init__'', ''configure'', ''set_output_dir'', ''plot_ctd_profiles'', ''analyze'',
      ''_plot_vertical_section'', ''_plot_ts_diagram'', ''_plot_vertical_sections'',
      ''_plot_spatial_distribution'', ''_calculate_statistics'',
      ''_calculate_mean_profiles'']"
| "class_methods StatsAgent =
     [''__init__'', ''configure'', ''analyze'', ''_calculate_basic_stats'',
      ''_analyze_correlation'', ''_analyze_stratification'', ''_generate_summary'']"
| "class_methods WaterMassAgent =
     [''__init__'', ''configure'', ''set_output_dir'', ''analyze'',
      ''_identify_water_masses'', ''_generate_visualizations'']"
| "class_methods ReportAgent =
     [''__init__'', ''configure'', ''set_output_dir'', ''generate_report'',
      ''_format_value'', ''_generate_markdown_content'']"
| "class_methods PosterAgent =
     [''__init__'', ''configure'', ''set_output_dir'', ''generate_poster'',
      ''_add_header_section'', ''_add_introduction_section'', ''_add_methods_section'',
      ''_add_results_section'']"
| "class_methods ResearcherAgent =
     [''__init__'', ''configure'', ''search'', ''_async_search'', ''_process_results'',
      ''_is_valid_source'', ''_extract_year'', ''_format_citation'', ''_is_cache_valid'',
      ''_cache_results'', ''get_related_papers'', ''summarize_findings'',
      ''export_bibliography'']"

text \<open>The attributes that \<open>__init__\<close> sets on an instance.\<close>

fun instance_attributes :: "agent_class \<Rightarrow> string list" where
  "instance_attributes ParserAgent = [''logger'', ''config'', ''data_path'']"
| "instance_attributes QAAgent = [''logger'', ''config'']"
| "instance_attributes AnalystAgent = [''logger'', ''config'', ''output_dir'']"
| "instance_attributes StatsAgent = [''logger'', ''config'', ''scaler'']"
| "instance_attributes WaterMassAgent = [''logger'', ''config'', ''output_dir'']"
| "instance_attributes ReportAgent = [''logger'', ''config'', ''output_dir'']"
| "instance_attributes PosterAgent = [''logger'', ''config'', ''output_dir'']"
| "instance_attributes ResearcherAgent =
     [''api_key'', ''client'', ''cache_dir'', ''logger'', ''config'', ''cache'']"

text \<open>An agent: its class and its attribute \<open>config\<close>, a dictionary (a map from its
  keys) with values of the type \<open>'v\<close>.\<close>

record 'v agent =
  agent_class :: agent_class
  agent_config :: "string \<rightharpoonup> 'v"

definition hasattr :: "'v agent \<Rightarrow> string \<Rightarrow> bool" where
  "hasattr agent attr \<longleftrightarrow>
     attr \<in> set (class_methods (agent_class agent))
     \<or> attr \<in> set (instance_attributes (agent_class agent))"

text \<open>
  What the constructors and \<open>configure\<close> methods take from outside the repository:
  the dictionary display that \<open>__init__\<close> assigns to \<open>config\<close>, per class; the
  environment variable \<open>TAVILY_API_KEY\<close> after \<open>load_dotenv()\<close>; the outcome of
  \<open>TavilyClient(api_key=...)\<close> and of \<open>cache_dir.mkdir(parents=True, exist_ok=True)\<close>
  (\<open>Some\<close> is an exception); the list comprehension of \<open>WaterMassAgent.configure\<close>
  that builds \<open>WaterMassDefinition\<close> objects from \<open>config['reference_masses']\<close>;
  \<open>Path.exists\<close>; and a call of a method \<open>set_data_path\<close> or \<open>initialize\<close> on an
  agent that has one (\<open>initialize\<close> is awaited, so the call may also be cancelled).
\<close>

record 'v environment =
  default_config :: "agent_class \<Rightarrow> string \<rightharpoonup> 'v"
  tavily_api_key :: "string option"
  tavily_client :: "string \<Rightarrow> pyexn option"
  mkdir_cache :: "pyexn option"
  make_reference_masses :: "'v \<Rightarrow> pyexn + 'v"
  path_exists :: "string \<Rightarrow> pyexn + bool"
  invoke :: "'v agent \<Rightarrow> string \<Rightarrow> raised + 'v agent"

text \<open>
  The constructors. Only \<open>ResearcherAgent.__init__\<close> can raise: it raises
  \<open>ValueError\<close> when the API key is unset or empty (the message is kept without its
  accent), and its client and cache directory may fail.
\<close>

definition construct :: "'v environment \<Rightarrow> agent_class \<Rightarrow> pyexn + 'v agent" where
  "construct E cls =
     (if cls = ResearcherAgent then
        (case tavily_api_key E of
           None \<Rightarrow>
             Inl (ValueError ''No se encontro TAVILY_API_KEY en las variables de entorno'')
         | Some api_key \<Rightarrow>
             if api_key = [] then
               Inl (ValueError ''No se encontro TAVILY_API_KEY en las variables de entorno'')
             else
               (case tavily_client E api_key of
                  Some e \<Rightarrow> Inl e
                | None \<Rightarrow>
                    (case mkdir_cache E of
                       Some e \<Rightarrow> Inl e
                     | None \<Rightarrow>
                         Inr \<lparr>agent_class = cls, agent_config = default_config E cls\<rparr>)))
      else Inr \<lparr>agent_class = cls, agent_config = default_config E cls\<rparr>)"

text \<open>The loop of \<open>WaterMassAgent.configure\<close> over its three scalar parameters.\<close>

fun copy_keys :: "string list \<Rightarrow> (string \<rightharpoonup> 'v) \<Rightarrow> (string \<rightharpoonup> 'v) \<Rightarrow> (string \<rightharpoonup> 'v)" where
  "copy_keys [] config self_config = self_config"
| "copy_keys (key # keys) config self_config =
     copy_keys keys config
       (case config key of
          None \<Rightarrow> self_config
        | Some v \<Rightarrow> self_config(key \<mapsto> v))"

text \<open>
  \<open>agent.configure(config)\<close>. A class without the method raises \<open>AttributeError\<close>;
  \<open>WaterMassAgent\<close> converts \<open>reference_masses\<close> and copies its three scalar
  parameters; every other class runs \<open>self.config.update(config)\<close>.
\<close>

definition configure ::
  "'v environment \<Rightarrow> 'v agent \<Rightarrow> (string \<rightharpoonup> 'v) \<Rightarrow> pyexn + 'v agent" where
  "configure E agent config =
     (if \<not> hasattr agent ''configure'' then Inl (AttributeError ''configure'')
      else if agent_class agent = WaterMassAgent then
        (case (case config ''reference_masses'' of
                 None \<Rightarrow> Inr (agent_config agent)
               | Some masses \<Rightarrow>
                   (case make_reference_masses E masses of
                      Inl e \<Rightarrow> Inl e
                    | Inr defs \<Rightarrow> Inr ((agent_config agent)(''reference_masses'' \<mapsto> defs)))) of
           Inl e \<Rightarrow> Inl e
         | Inr self_config \<Rightarrow>
             Inr (agent\<lparr>agent_config :=
                    copy_keys [''min_points'', ''min_fraction'', ''max_distance'']
                      config self_config\<rparr>))
      else Inr (agent\<lparr>agent_config := agent_config agent ++ config\<rparr>))"

section \<open>agents/supervisor\_agent.py: the supervisor's state\<close>

text \<open>
  The dictionaries that the supervisor builds, as records. \<open>'v\<close> is the type of the
  payloads the supervisor passes on without inspecting them. A timestamp is the reading
  of the clock at the call of \<open>datetime.now()\<close>.
\<close>

record workflow_status =
  start_time :: nat
  status :: string
  current_stage :: string
  completed_stages :: "string list"
  pending_stages :: "string list"

record 'v evaluation =
  completeness :: 'v
  quality :: 'v
  consistency :: 'v
  issues :: 'v

record 'v feedback =
  fb_stage :: string
  fb_timestamp :: nat
  fb_evaluation :: "'v evaluation"
  fb_recommendations :: 'v
  fb_quality_metrics :: "(string \<times> double) list"

text \<open>
  The dictionary returned by \<open>review_report\<close>. The key \<open>user_feedback\<close> is present
  only when the caller's feedback is true in a condition: \<open>rv_user_feedback\<close> is
  \<open>None\<close> when the key is absent.
\<close>

record 'v review =
  rv_timestamp :: nat
  rv_status :: string
  rv_feedback :: "'v list"
  rv_recommendations :: "'v list"
  rv_approval_status :: string
  rv_automated_review :: 'v
  rv_user_feedback :: "(string \<times> 'v) list option"
  rv_quality_evaluation :: 'v

text \<open>
  The attributes of \<open>SupervisorAgent\<close> that its methods write. \<open>sup_config\<close> is
  the attribute \<open>config\<close>, a dictionary of sections; \<open>sup_agents\<close> is the attribute
  \<open>agents\<close>, in the order of insertion; \<open>workflow_status\<close> is \<open>None\<close> while it
  is the empty dictionary of \<open>__init__\<close>; \<open>sup_log\<close> holds the records written
  through \<open>self.logger\<close>.
\<close>

record 'v supervisor =
  sup_config :: "(string \<rightharpoonup> (string \<rightharpoonup> 'v)) option"
  sup_agents :: "(string \<times> 'v agent) list"
  workflow_status :: "workflow_status option"
  feedback_history :: "'v feedback list"
  report_reviews :: "'v review list"
  sup_log :: "log_record list"

section \<open>agents/supervisor\_agent.py: feedback on a stage\<close>

text \<open>
  \<open>provide_feedback\<close> and the methods under it call nine methods of the supervisor
  that are defined nowhere in the repository. They are parameters here; as methods of the
  supervisor they may read and change its attributes, so each takes the supervisor and
  returns it, and each is free to raise.
\<close>

record ('r, 'v) stage_helpers =
  check_completeness ::
    "string \<Rightarrow> 'r \<Rightarrow> 'v supervisor \<Rightarrow> (pyexn + 'v) \<times> 'v supervisor"
  assess_quality ::
    "string \<Rightarrow> 'r \<Rightarrow> 'v supervisor \<Rightarrow> (pyexn + 'v) \<times> 'v supervisor"
  verify_consistency ::
    "string \<Rightarrow> 'r \<Rightarrow> 'v supervisor \<Rightarrow> (pyexn + 'v) \<times> 'v supervisor"
  identify_issues ::
    "string \<Rightarrow> 'r \<Rightarrow> 'v supervisor \<Rightarrow> (pyexn + 'v) \<times> 'v supervisor"
  generate_stage_recommendations ::
    "string \<Rightarrow> 'r \<Rightarrow> 'v supervisor \<Rightarrow> (pyexn + 'v) \<times> 'v supervisor"
  calculate_parsing_metrics ::
    "'r \<Rightarrow> 'v supervisor \<Rightarrow> (pyexn + (string \<times> double) list) \<times> 'v supervisor"
  calculate_qa_metrics ::
    "'r \<Rightarrow> 'v supervisor \<Rightarrow> (pyexn + (string \<times> double) list) \<times> 'v supervisor"
  calculate_analysis_metrics ::
    "'r \<Rightarrow> 'v supervisor \<Rightarrow> (pyexn + (string \<times> double) list) \<times> 'v supervisor"
  calculate_report_metrics ::
    "'r \<Rightarrow> 'v supervisor \<Rightarrow> (pyexn + (string \<times> double) list) \<times> 'v supervisor"

text \<open>
  \<open>dict.update\<close> on dictionaries held as item lists: each item of the argument, in
  order, replaces the value of its key or is added at the end.
\<close>

fun dict_set :: "'k \<Rightarrow> 'v \<Rightarrow> ('k \<times> 'v) list \<Rightarrow> ('k \<times> 'v) list" where
  "dict_set k v [] = [(k, v)]"
| "dict_set k v ((k', v') # kvs) =
     (if k' = k then (k, v) # kvs else (k', v') # dict_set k v kvs)"

definition dict_update :: "('k \<times> 'v) list \<Rightarrow> ('k \<times> 'v) list \<Rightarrow> ('k \<times> 'v) list" where
  "dict_update d other = fold (\<lambda>(k, v). dict_set k v) other d"

text \<open>\<open>SupervisorAgent._evaluate_results\<close>: the dictionary display calls the four
  checks in the order of its keys.\<close>

definition evaluate_results ::
  "('r, 'v) stage_helpers \<Rightarrow> string \<Rightarrow> 'r \<Rightarrow> 'v supervisor
     \<Rightarrow> (pyexn + 'v evaluation) \<times> 'v supervisor" where
  "evaluate_results H stage results self =
     (case check_completeness H stage results self of
        (Inl e, s1) \<Rightarrow> (Inl e, s1)
      | (Inr c, s1) \<Rightarrow>
     (case assess_quality H stage results s1 of
        (Inl e, s2) \<Rightarrow> (Inl e, s2)
      | (Inr q, s2) \<Rightarrow>
     (case verify_consistency H stage results s2 of
        (Inl e, s3) \<Rightarrow> (Inl e, s3)
      | (Inr k, s3) \<Rightarrow>
     (case identify_issues H stage results s3 of
        (Inl e, s4) \<Rightarrow> (Inl e, s4)
      | (Inr i, s4) \<Rightarrow>
          (Inr \<lparr>completeness = c, quality = q, consistency = k, issues = i\<rparr>, s4)))))"

text \<open>\<open>SupervisorAgent._calculate_quality_metrics\<close>: an empty dictionary, updated
  with the metrics of the stage when the stage is one of the four known ones.\<close>

definition calculate_quality_metrics ::
  "('r, 'v) stage_helpers \<Rightarrow> string \<Rightarrow> 'r \<Rightarrow> 'v supervisor
     \<Rightarrow> (pyexn + (string \<times> double) list) \<times> 'v supervisor" where
  "calculate_quality_metrics H stage results self =
     (if stage = ''parsing'' then
        (case calculate_parsing_metrics H results self of
           (Inl e, s) \<Rightarrow> (Inl e, s) | (Inr m, s) \<Rightarrow> (Inr (dict_update [] m), s))
      else if stage = ''qa'' then
        (case calculate_qa_metrics H results self of
           (Inl e, s) \<Rightarrow> (Inl e, s) | (Inr m, s) \<Rightarrow> (Inr (dict_update [] m), s))
      else if stage = ''analysis'' then
        (case calculate_analysis_metrics H results self of
           (Inl e, s) \<Rightarrow> (Inl e, s) | (Inr m, s) \<Rightarrow> (Inr (dict_update [] m), s))
      else if stage = ''reporting'' then
        (case calculate_report_metrics H results self of
           (Inl e, s) \<Rightarrow> (Inl e, s) | (Inr m, s) \<Rightarrow> (Inr (dict_update [] m), s))
      else (Inr [], self))"

text \<open>
  \<open>SupervisorAgent.provide_feedback\<close>. \<open>now\<close> is the reading of the clock at this
  call. The record is built first, then appended to \<open>feedback_history\<close> and returned;
  when a method raises, the supervisor is as the methods called so far have left it.
\<close>

definition provide_feedback ::
  "('r, 'v) stage_helpers \<Rightarrow> nat \<Rightarrow> string \<Rightarrow> 'r \<Rightarrow> 'v supervisor
     \<Rightarrow> (pyexn + 'v feedback) \<times> 'v supervisor" where
  "provide_feedback H now stage results self =
     (case evaluate_results H stage results self of
        (Inl e, s1) \<Rightarrow> (Inl e, s1)
      | (Inr ev, s1) \<Rightarrow>
     (case generate_stage_recommendations H stage results s1 of
        (Inl e, s2) \<Rightarrow> (Inl e, s2)
      | (Inr recs, s2) \<Rightarrow>
     (case calculate_quality_metrics H stage results s2 of
        (Inl e, s3) \<Rightarrow> (Inl e, s3)
      | (Inr metrics, s3) \<Rightarrow>
          (let feedback = \<lparr>fb_stage = stage, fb_timestamp = now, fb_evaluation = ev,
                            fb_recommendations = recs, fb_quality_metrics = metrics\<rparr>
           in (Inr feedback,
               s3\<lparr>feedback_history := feedback_history s3 @ [feedback]\<rparr>)))))"

text \<open>
  A method whose outcome does not depend on the supervisor and that leaves the
  supervisor as it is; and the nine methods being such, for one stage and its results.
\<close>

definition unchanging :: "('s \<Rightarrow> 'a \<times> 's) \<Rightarrow> bool" where
  "unchanging m \<longleftrightarrow> (\<forall>s s'. fst (m s) = fst (m s') \<and> snd (m s) = s)"

definition deterministic_helpers :: "('r, 'v) stage_helpers \<Rightarrow> string \<Rightarrow> 'r \<Rightarrow> bool" where
  "deterministic_helpers H stage results \<longleftrightarrow>
     unchanging (check_completeness H stage results)
     \<and> unchanging (assess_quality H stage results)
     \<and> unchanging (verify_consistency H stage results)
     \<and> unchanging (identify_issues H stage results)
     \<and> unchanging (generate_stage_recommendations H stage results)
     \<and> unchanging (calculate_parsing_metrics H results)
     \<and> unchanging (calculate_qa_metrics H results)
     \<and> unchanging (calculate_analysis_metrics H results)
     \<and> unchanging (calculate_report_metrics H results)"

text \<open>
  The nine methods as the repository has them: none is defined, so the attribute lookup
  on the supervisor raises \<open>AttributeError\<close> and the supervisor is as it was.
\<close>

definition undefined_stage_helpers :: "('r, 'v) stage_helpers" where
  "undefined_stage_helpers =
     \<lparr>check_completeness = (\<lambda>st r s. (Inl (AttributeError ''_check_completeness''), s)),
      assess_quality = (\<lambda>st r s. (Inl (AttributeError ''_assess_quality''), s)),
      verify_consistency = (\<lambda>st r s. (Inl (AttributeError ''_verify_consistency''), s)),
      identify_issues = (\<lambda>st r s. (Inl (AttributeError ''_identify_issues''), s)),
      generate_stage_recommendations =
        (\<lambda>st r s. (Inl (AttributeError ''_generate_stage_recommendations''), s)),
      calculate_parsing_metrics =
        (\<lambda>r s. (Inl (AttributeError ''_calculate_parsing_metrics''), s)),
      calculate_qa_metrics = (\<lambda>r s. (Inl (AttributeError ''_calculate_qa_metrics''), s)),
      calculate_analysis_metrics =
        (\<lambda>r s. (Inl (AttributeError ''_calculate_analysis_metrics''), s)),
      calculate_report_metrics =
        (\<lambda>r s. (Inl (AttributeError ''_calculate_report_metrics''), s))\<rparr>"

text \<open>Methods that answer every stage with the same findings and metrics and leave
  the supervisor as it is, for running \<open>provide_feedback\<close> on a concrete input.\<close>

definition constant_helpers :: "(unit, nat) stage_helpers" where
  "constant_helpers =
     \<lparr>check_completeness = (\<lambda>st r s. (Inr 1, s)),
      assess_quality = (\<lambda>st r s. (Inr 1, s)),
      verify_consistency = (\<lambda>st r s. (Inr 1, s)),
      identify_issues = (\<lambda>st r s. (Inr 0, s)),
      generate_stage_recommendations = (\<lambda>st r s. (Inr 0, s)),
      calculate_parsing_metrics = (\<lambda>r s. (Inr [(''valid'', Finite 1)], s)),
      calculate_qa_metrics = (\<lambda>r s. (Inr [(''valid'', Finite 1)], s)),
      calculate_analysis_metrics = (\<lambda>r s. (Inr [(''valid'', Finite 1)], s)),
      calculate_report_metrics = (\<lambda>r s. (Inr [(''valid'', Finite 1)], s))\<rparr>"

definition new_supervisor :: "'v supervisor" where
  "new_supervisor =
     \<lparr>sup_config = None, sup_agents = [], workflow_status = None, feedback_history = [],
      report_reviews = [], sup_log = []\<rparr>"

section \<open>agents/supervisor\_agent.py: review of the report\<close>

text \<open>
  \<open>review_report\<close> calls three methods, and \<open>_determine_approval_status\<close> three
  more, that are defined nowhere in the repository. They are parameters here: functions
  of their arguments, each free to raise.
\<close>

record 'v review_helpers =
  perform_automated_review :: "string \<Rightarrow> pyexn + 'v"
  evaluate_report_quality :: "string \<Rightarrow> pyexn + 'v"
  generate_recommendations ::
    "'v \<Rightarrow> 'v \<Rightarrow> (string \<times> 'v) list option \<Rightarrow> pyexn + 'v list"
  calculate_auto_review_score :: "'v \<Rightarrow> pyexn + double"
  calculate_quality_score :: "'v \<Rightarrow> pyexn + double"
  calculate_user_feedback_score :: "(string \<times> 'v) list \<Rightarrow> pyexn + double"

text \<open>
  \<open>SupervisorAgent.review_report\<close>. The dictionary \<open>review_results\<close> is local until
  the last statement appends it to \<open>report_reviews\<close>; an exception on the way leaves
  the supervisor as it was.
\<close>

definition review_report ::
  "'v review_helpers \<Rightarrow> nat \<Rightarrow> string \<Rightarrow> (string \<times> 'v) list option \<Rightarrow> 'v supervisor
     \<Rightarrow> (pyexn + 'v review) \<times> 'v supervisor" where
  "review_report R now report_path user_feedback self =
     (case perform_automated_review R report_path of
        Inl e \<Rightarrow> (Inl e, self)
      | Inr auto_review \<Rightarrow>
     (case evaluate_report_quality R report_path of
        Inl e \<Rightarrow> (Inl e, self)
      | Inr quality_evaluation \<Rightarrow>
     (case generate_recommendations R auto_review quality_evaluation user_feedback of
        Inl e \<Rightarrow> (Inl e, self)
      | Inr recommendations \<Rightarrow>
     (case determine_approval_status (calculate_auto_review_score R)
             (calculate_quality_score R) (calculate_user_feedback_score R)
             auto_review quality_evaluation user_feedback of
        Inl e \<Rightarrow> (Inl e, self)
      | Inr approval_status \<Rightarrow>
          (let review_results =
                 \<lparr>rv_timestamp = now, rv_status = ''pending'', rv_feedback = [],
                  rv_recommendations = recommendations,
                  rv_approval_status = approval_status,
                  rv_automated_review = auto_review,
                  rv_user_feedback = (if truthy user_feedback then user_feedback else None),
                  rv_quality_evaluation = quality_evaluation\<rparr>
           in (Inr review_results,
               self\<lparr>report_reviews := report_reviews self @ [review_results]\<rparr>))))))"

text \<open>
  A caller that makes one call of \<open>review_report\<close> after the other on the same
  supervisor, each with its clock reading, report path and feedback, and goes on after a
  call that raised.
\<close>

fun review_reports ::
  "'v review_helpers \<Rightarrow> (nat \<times> string \<times> (string \<times> 'v) list option) list \<Rightarrow> 'v supervisor
     \<Rightarrow> 'v supervisor" where
  "review_reports R [] self = self"
| "review_reports R ((now, report_path, user_feedback) # calls) self =
     review_reports R calls (snd (review_report R now report_path user_feedback self))"

text \<open>
  The six methods as the repository has them: none is defined, so the attribute lookup
  on the supervisor raises \<open>AttributeError\<close>.
\<close>

definition undefined_review_helpers :: "'v review_helpers" where
  "undefined_review_helpers =
     \<lparr>perform_automated_review = (\<lambda>p. Inl (AttributeError ''_perform_automated_review'')),
      evaluate_report_quality = (\<lambda>p. Inl (AttributeError ''_evaluate_report_quality'')),
      generate_recommendations = (\<lambda>a q u. Inl (AttributeError ''_generate_recommendations'')),
      calculate_auto_review_score =
        (\<lambda>a. Inl (AttributeError ''_calculate_auto_review_score'')),
      calculate_quality_score = (\<lambda>q. Inl (AttributeError ''_calculate_quality_score'')),
      calculate_user_feedback_score =
        (\<lambda>u. Inl (AttributeError ''_calculate_user_feedback_score''))\<rparr>"

text \<open>Helpers that give every report the same review and scores, for running
  \<open>review_report\<close> on a concrete input.\<close>

definition constant_review_helpers :: "nat review_helpers" where
  "constant_review_helpers =
     \<lparr>perform_automated_review = (\<lambda>p. Inr 1),
      evaluate_report_quality = (\<lambda>p. Inr 2),
      generate_recommendations = (\<lambda>a q u. Inr []),
      calculate_auto_review_score = (\<lambda>a. Inr (to_double (9 / 10))),
      calculate_quality_score = (\<lambda>q. Inr (to_double (9 / 10))),
      calculate_user_feedback_score = (\<lambda>u. Inr (Finite (1 / 2)))\<rparr>"

section \<open>core/agent\_orchestrator.py: the workflow manager\<close>

text \<open>A stage of \<open>AgentOrchestrator.workflow\<close>, and the three stages that
  \<open>setup_workflow\<close> declares.\<close>

record stage =
  stage_name :: string
  stage_agents :: "string list"
  parallel :: bool

definition workflow_stages :: "stage list" where
  "workflow_stages =
     [\<lparr>stage_name = ''data_processing'', stage_agents = [''parser'', ''qa''],
       parallel = False\<rparr>,
      \<lparr>stage_name = ''analysis'', stage_agents = [''analyst'', ''water_mass'', ''stats''],
       parallel = True\<rparr>,
      \<lparr>stage_name = ''reporting'', stage_agents = [''report''], parallel = False\<rparr>]"

text \<open>
  \<open>_execute_agent\<close> calls four methods that are defined nowhere in the repository
  (\<open>_check_dependencies\<close>, \<open>get_agent\<close>, \<open>_request_supervisor_feedback\<close>,
  \<open>_apply_corrections\<close>), the agent's \<open>analyze\<close>, and reads the key
  \<open>needs_correction\<close> of the feedback. They are parameters here: functions of their
  arguments, each free to raise. In particular a unit reads the dictionary it is given
  and returns a new one, as the \<open>analyze\<close> methods of the repository do.
  A dictionary is a map from its keys.
\<close>

record ('a, 'f, 'v) manager_helpers =
  check_dependencies :: "string \<Rightarrow> pyexn + unit"
  get_agent :: "string \<Rightarrow> pyexn + 'a"
  analyze :: "'a \<Rightarrow> (string \<rightharpoonup> 'v) \<Rightarrow> pyexn + (string \<rightharpoonup> 'v)"
  request_supervisor_feedback :: "string \<Rightarrow> (string \<rightharpoonup> 'v) \<Rightarrow> pyexn + 'f"
  needs_correction :: "'f \<Rightarrow> pyexn + bool"
  apply_corrections :: "'a \<Rightarrow> (string \<rightharpoonup> 'v) \<Rightarrow> 'f \<Rightarrow> pyexn + (string \<rightharpoonup> 'v)"

text \<open>\<open>WorkflowManager._execute_agent\<close>.\<close>

definition execute_agent ::
  "('a, 'f, 'v) manager_helpers \<Rightarrow> string \<Rightarrow> (string \<rightharpoonup> 'v) \<Rightarrow> pyexn + (string \<rightharpoonup> 'v)" where
  "execute_agent M agent_name input_data =
     (case check_dependencies M agent_name of
        Inl e \<Rightarrow> Inl e
      | Inr _ \<Rightarrow>
     (case get_agent M agent_name of
        Inl e \<Rightarrow> Inl e
      | Inr agent \<Rightarrow>
     (case analyze M agent input_data of
        Inl e \<Rightarrow> Inl e
      | Inr results \<Rightarrow>
     (case request_supervisor_feedback M agent_name results of
        Inl e \<Rightarrow> Inl e
      | Inr feedback \<Rightarrow>
     (case needs_correction M feedback of
        Inl e \<Rightarrow> Inl e
      | Inr correct \<Rightarrow>
          if correct then apply_corrections M agent results feedback
          else Inr results)))))"

text \<open>
  The sequential branch of \<open>execute_workflow\<close>: the loop over the agents of a stage.
  \<open>input_data\<close> is the caller's dictionary, updated in place after each agent, so it is
  returned also when an agent raises.
\<close>

fun run_sequential ::
  "('a, 'f, 'v) manager_helpers \<Rightarrow> string list \<Rightarrow> (string \<rightharpoonup> 'v) list \<Rightarrow> (string \<rightharpoonup> 'v)
     \<Rightarrow> (pyexn + (string \<rightharpoonup> 'v) list) \<times> (string \<rightharpoonup> 'v)" where
  "run_sequential M [] results input_data = (Inr results, input_data)"
| "run_sequential M (agent # agents) results input_data =
     (case execute_agent M agent input_data of
        Inl e \<Rightarrow> (Inl e, input_data)
      | Inr result \<Rightarrow>
          run_sequential M agents (results @ [result]) (input_data ++ result))"

text \<open>
  Helpers for running the manager on a concrete input: the agent is its name, no
  feedback asks for a correction; \<open>parser\<close>, \<open>analyst\<close> and \<open>stats\<close> return one entry
  each, \<open>report\<close> raises, and every other unit returns the dictionary it was given, which
  makes its input visible in the results.
\<close>

definition demo_helpers :: "(string, unit, int) manager_helpers" where
  "demo_helpers =
     \<lparr>check_dependencies = (\<lambda>n. Inr ()),
      get_agent = (\<lambda>n. Inr n),
      analyze = (\<lambda>a d.
        if a = ''parser'' then Inr [''temperature'' \<mapsto> 15]
        else if a = ''analyst'' then Inr [''figures'' \<mapsto> 1]
        else if a = ''stats'' then Inr [''mean'' \<mapsto> 2]
        else if a = ''report'' then Inl (OtherError ''report failed'')
        else Inr d),
      request_supervisor_feedback = (\<lambda>n r. Inr ()),
      needs_correction = (\<lambda>f. Inr False),
      apply_corrections = (\<lambda>a r f. Inr r)\<rparr>"

section \<open>core/agent\_orchestrator.py: a parallel stage\<close>












section \<open>agents/supervisor\_agent.py: coordination of the analysis\<close>

text \<open>
  \<open>coordinate_analysis\<close> calls six methods that are defined nowhere in the
  repository, one per stage. They are parameters here; as methods of the supervisor they
  may change its attributes, so each takes the supervisor and returns it, and each is
  free to raise.
\<close>

record 'v coordinators =
  coordinate_parsing :: "'v supervisor \<Rightarrow> (raised + 'v) \<times> 'v supervisor"
  coordinate_qa :: "'v \<Rightarrow> 'v supervisor \<Rightarrow> (raised + 'v) \<times> 'v supervisor"
  coordinate_analysis_phase :: "'v \<Rightarrow> 'v supervisor \<Rightarrow> (raised + 'v) \<times> 'v supervisor"
  coordinate_stats :: "'v \<Rightarrow> 'v supervisor \<Rightarrow> (raised + 'v) \<times> 'v supervisor"
  coordinate_water_mass_analysis :: "'v \<Rightarrow> 'v supervisor \<Rightarrow> (raised + 'v) \<times> 'v supervisor"
  coordinate_reporting ::
    "'v \<Rightarrow> 'v \<Rightarrow> 'v \<Rightarrow> 'v \<Rightarrow> 'v \<Rightarrow> 'v supervisor \<Rightarrow> (raised + 'v) \<times> 'v supervisor"

text \<open>The dictionary that \<open>coordinate_analysis\<close> returns.\<close>

record 'v analysis_outcome =
  out_status :: string
  res_parsing :: 'v
  res_qa :: 'v
  res_analysis :: 'v
  res_statistics :: 'v
  res_water_masses :: 'v
  res_report :: 'v
  out_workflow_status :: "workflow_status option"

text \<open>The body of the \<open>try\<close> statement of \<open>coordinate_analysis\<close>: the six stages
  in order, the first exception ending it.\<close>

definition coordinate_analysis_body ::
  "'v coordinators \<Rightarrow> 'v supervisor \<Rightarrow> (raised + 'v analysis_outcome) \<times> 'v supervisor" where
  "coordinate_analysis_body C self =
     (case coordinate_parsing C self of
        (Inl e, s1) \<Rightarrow> (Inl e, s1)
      | (Inr parsed_data, s1) \<Rightarrow>
     (case coordinate_qa C parsed_data s1 of
        (Inl e, s2) \<Rightarrow> (Inl e, s2)
      | (Inr qa_results, s2) \<Rightarrow>
     (case coordinate_analysis_phase C qa_results s2 of
        (Inl e, s3) \<Rightarrow> (Inl e, s3)
      | (Inr analysis_results, s3) \<Rightarrow>
     (case coordinate_stats C analysis_results s3 of
        (Inl e, s4) \<Rightarrow> (Inl e, s4)
      | (Inr stats_results, s4) \<Rightarrow>
     (case coordinate_water_mass_analysis C analysis_results s4 of
        (Inl e, s5) \<Rightarrow> (Inl e, s5)
      | (Inr water_mass_results, s5) \<Rightarrow>
     (case coordinate_reporting C parsed_data qa_results analysis_results stats_results
             water_mass_results s5 of
        (Inl e, s6) \<Rightarrow> (Inl e, s6)
      | (Inr report, s6) \<Rightarrow>
          (Inr \<lparr>out_status = ''completed'', res_parsing = parsed_data, res_qa = qa_results,
                 res_analysis = analysis_results, res_statistics = stats_results,
                 res_water_masses = water_mass_results, res_report = report,
                 out_workflow_status = workflow_status s6\<rparr>,
           s6)))))))"

text \<open>
  \<open>SupervisorAgent.coordinate_analysis\<close>: the handler \<open>except Exception\<close> logs
  the exception and raises it again; an exception that is not under \<open>Exception\<close>
  passes it by.
\<close>

definition coordinate_analysis ::
  "'v coordinators \<Rightarrow> 'v supervisor \<Rightarrow> (raised + 'v analysis_outcome) \<times> 'v supervisor" where
  "coordinate_analysis C self =
     (case coordinate_analysis_body C self of
        (Inl (Exception e), s) \<Rightarrow>
          (Inl (Exception e), s\<lparr>sup_log := sup_log s @ [ErrorCoordination e]\<rparr>)
      | (Inl (BaseException b), s) \<Rightarrow> (Inl (BaseException b), s)
      | (Inr outcome, s) \<Rightarrow> (Inr outcome, s))"

text \<open>
  The six methods as the repository has them: none is defined, so the attribute lookup
  on the supervisor raises \<open>AttributeError\<close> and the supervisor is as it was.
\<close>

definition undefined_coordinators :: "'v coordinators" where
  "undefined_coordinators =
     \<lparr>coordinate_parsing = (\<lambda>s. (Inl (Exception (AttributeError ''_coordinate_parsing'')), s)),
      coordinate_qa = (\<lambda>p s. (Inl (Exception (AttributeError ''_coordinate_qa'')), s)),
      coordinate_analysis_phase =
        (\<lambda>q s. (Inl (Exception (AttributeError ''_coordinate_analysis_phase'')), s)),
      coordinate_stats = (\<lambda>a s. (Inl (Exception (AttributeError ''_coordinate_stats'')), s)),
      coordinate_water_mass_analysis =
        (\<lambda>a s. (Inl (Exception (AttributeError ''_coordinate_water_mass_analysis'')), s)),
      coordinate_reporting =
        (\<lambda>p q a t w s. (Inl (Exception (AttributeError ''_coordinate_reporting'')), s))\<rparr>"

text \<open>Coordinators for running \<open>coordinate_analysis\<close> on a concrete input: parsing
  succeeds and quality control raises; neither touches the supervisor.\<close>

definition qa_failing_coordinators :: "nat coordinators" where
  "qa_failing_coordinators =
     \<lparr>coordinate_parsing = (\<lambda>s. (Inr 1, s)),
      coordinate_qa = (\<lambda>p s. (Inl (Exception (ValueError ''no valid samples'')), s)),
      coordinate_analysis_phase = (\<lambda>q s. (Inr 3, s)),
      coordinate_stats = (\<lambda>a s. (Inr 4, s)),
      coordinate_water_mass_analysis = (\<lambda>a s. (Inr 5, s)),
      coordinate_reporting = (\<lambda>p q a t w s. (Inr 6, s))\<rparr>"

text \<open>Coordinators for which the first stage is cancelled at its \<open>await\<close>.\<close>

definition cancelled_coordinators :: "nat coordinators" where
  "cancelled_coordinators =
     qa_failing_coordinators
       \<lparr>coordinate_parsing := (\<lambda>s. (Inl (BaseException CancelledError), s))\<rparr>"

text \<open>The value that \<open>initialize_workflow\<close> assigns to \<open>workflow_status\<close>, at the
  clock reading \<open>now\<close>.\<close>

definition initialized_status :: "nat \<Rightarrow> workflow_status" where
  "initialized_status now =
     \<lparr>start_time = now, status = ''initialized'', current_stage = ''data_parsing'',
      completed_stages = [],
      pending_stages = [''data_parsing'', ''quality_control'', ''analysis'', ''statistics'',
                        ''water_mass_analysis'', ''reporting'']\<rparr>"

text \<open>The supervisor \<open>s\<close> after the handler of \<open>coordinate_analysis\<close> has seen
  what a stage raised.\<close>

fun after_handler :: "raised \<Rightarrow> 'v supervisor \<Rightarrow> 'v supervisor" where
  "after_handler (Exception e) s = s\<lparr>sup_log := sup_log s @ [ErrorCoordination e]\<rparr>"
| "after_handler (BaseException b) s = s"

section \<open>agents/supervisor\_agent.py: initialisation of the workflow\<close>

text \<open>
  The eight entries of the dictionary display that \<open>initialize_workflow\<close> assigns to
  \<open>self.agents\<close>, in order: the key, the class that \<open>_initialize_<key>_agent\<close>
  instantiates, and the section of the configuration it passes to \<open>configure\<close>.
\<close>

definition agent_table :: "(string \<times> agent_class \<times> string) list" where
  "agent_table =
     [(''parser'', ParserAgent, ''data''),
      (''qa'', QAAgent, ''qa''),
      (''analyst'', AnalystAgent, ''analysis''),
      (''stats'', StatsAgent, ''analysis''),
      (''water_mass'', WaterMassAgent, ''water_masses''),
      (''report'', ReportAgent, ''output''),
      (''poster'', PosterAgent, ''output''),
      (''researcher'', ResearcherAgent, ''research'')]"

text \<open>The common shape of the eight \<open>_initialize_*_agent\<close> methods.\<close>

definition initialize_agent ::
  "'v environment \<Rightarrow> (string \<rightharpoonup> (string \<rightharpoonup> 'v)) \<Rightarrow> agent_class \<Rightarrow> string
     \<Rightarrow> pyexn + 'v agent" where
  "initialize_agent E config cls section =
     (case construct E cls of
        Inl e \<Rightarrow> Inl e
      | Inr agent \<Rightarrow>
          (case config section of
             None \<Rightarrow> Inr agent
           | Some options \<Rightarrow> configure E agent options))"

fun register_agents ::
  "'v environment \<Rightarrow> (string \<rightharpoonup> (string \<rightharpoonup> 'v)) \<Rightarrow> (string \<times> agent_class \<times> string) list
     \<Rightarrow> pyexn + (string \<times> 'v agent) list" where
  "register_agents E config [] = Inr []"
| "register_agents E config ((name, cls, section) # table) =
     (case initialize_agent E config cls section of
        Inl e \<Rightarrow> Inl e
      | Inr agent \<Rightarrow>
          (case register_agents E config table of
             Inl e \<Rightarrow> Inl e
           | Inr rest \<Rightarrow> Inr ((name, agent) # rest)))"

text \<open>
  The loop of \<open>_configure_agents\<close>. The agents are objects changed in place, so the
  list is returned also when a call raises (\<open>Some\<close> is the exception).
\<close>

fun configure_each ::
  "'v environment \<Rightarrow> (string \<times> 'v agent) list
     \<Rightarrow> raised option \<times> (string \<times> 'v agent) list" where
  "configure_each E [] = (None, [])"
| "configure_each E ((agent_name, agent) # rest) =
     (case (if hasattr agent ''set_data_path'' then invoke E agent ''set_data_path''
            else Inr agent) of
        Inl e \<Rightarrow> (Some e, (agent_name, agent) # rest)
      | Inr agent1 \<Rightarrow>
     (case (if hasattr agent1 ''initialize'' then invoke E agent1 ''initialize''
            else Inr agent1) of
        Inl e \<Rightarrow> (Some e, (agent_name, agent1) # rest)
      | Inr agent2 \<Rightarrow>
          (case configure_each E rest of
             (r, rest') \<Rightarrow> (r, (agent_name, agent2) # rest'))))"

text \<open>
  \<open>SupervisorAgent._configure_agents\<close>: the handler \<open>except Exception\<close> logs the
  exception and raises it again; an exception that is not under \<open>Exception\<close> passes it
  by. (The message of the \<open>FileNotFoundError\<close> is kept without its accent.)
\<close>

definition configure_agents ::
  "'v environment \<Rightarrow> string \<Rightarrow> 'v supervisor \<Rightarrow> (raised + unit) \<times> 'v supervisor" where
  "configure_agents E data_path self =
     (case (case path_exists E data_path of
              Inl e \<Rightarrow> (Some (Exception e), sup_agents self)
            | Inr present \<Rightarrow>
                if \<not> present then
                  (Some (Exception (FileNotFoundError
                     (''No se encontro el archivo de datos: '' @ data_path))),
                   sup_agents self)
                else configure_each E (sup_agents self)) of
        (Some (Exception e), agents') \<Rightarrow>
          (Inl (Exception e),
           self\<lparr>sup_agents := agents',
                sup_log := sup_log self @ [ErrorConfiguringAgents e]\<rparr>)
      | (Some (BaseException b), agents') \<Rightarrow>
          (Inl (BaseException b), self\<lparr>sup_agents := agents'\<rparr>)
      | (None, agents') \<Rightarrow> (Inr (), self\<lparr>sup_agents := agents'\<rparr>))"

text \<open>
  \<open>SupervisorAgent._verify_agent_config\<close>, with the log. The attribute \<open>config\<close>
  of an agent is a dictionary in this model, so the third check cannot fail.
\<close>

definition verify_agent_config ::
  "'v agent \<Rightarrow> log_record list \<Rightarrow> bool \<times> log_record list" where
  "verify_agent_config agent logs =
     (if \<not> hasattr agent ''configure''
      then (False, logs @ [ErrorNoConfigure (class_name (agent_class agent))])
      else if \<not> hasattr agent ''config''
      then (False, logs @ [ErrorNoConfig (class_name (agent_class agent))])
      else (True, logs))"

text \<open>
  The loop of \<open>_interview_agents\<close> (the message of its \<open>ValueError\<close> is kept
  without its accent). The handler around \<open>initialize\<close> is \<open>except Exception\<close>: it
  logs the exception and raises it again.
\<close>

fun interview_each ::
  "'v environment \<Rightarrow> (string \<times> 'v agent) list \<Rightarrow> log_record list
     \<Rightarrow> raised option \<times> (string \<times> 'v agent) list \<times> log_record list" where
  "interview_each E [] logs = (None, [], logs)"
| "interview_each E ((agent_name, agent) # rest) logs =
     (case verify_agent_config agent (logs @ [LogInfo (''Entrevistando agente: '' @ agent_name)]) of
        (config_status, logs1) \<Rightarrow>
          if \<not> config_status then
            (Some (Exception
               (ValueError (''Error en configuracion del agente '' @ agent_name))),
             (agent_name, agent) # rest, logs1)
          else
            (case (if hasattr agent ''initialize'' then invoke E agent ''initialize''
                   else Inr agent) of
               Inl (Exception e) \<Rightarrow>
                 (Some (Exception e), (agent_name, agent) # rest,
                  logs1 @ [ErrorInitializingAgent agent_name e])
             | Inl (BaseException b) \<Rightarrow>
                 (Some (BaseException b), (agent_name, agent) # rest, logs1)
             | Inr agent1 \<Rightarrow>
                 (case interview_each E rest logs1 of
                    (r, rest', logs2) \<Rightarrow> (r, (agent_name, agent1) # rest', logs2))))"

definition interview_agents ::
  "'v environment \<Rightarrow> 'v supervisor \<Rightarrow> (raised + unit) \<times> 'v supervisor" where
  "interview_agents E self =
     (case interview_each E (sup_agents self) (sup_log self) of
        (Some r, agents', logs) \<Rightarrow> (Inl r, self\<lparr>sup_agents := agents', sup_log := logs\<rparr>)
      | (None, agents', logs) \<Rightarrow> (Inr (), self\<lparr>sup_agents := agents', sup_log := logs\<rparr>))"

text \<open>
  \<open>SupervisorAgent.initialize_workflow\<close>, at the clock reading \<open>now\<close>. The
  dictionary of the agents is assigned only when all eight have been built.
\<close>

definition initialize_workflow ::
  "'v environment \<Rightarrow> nat \<Rightarrow> string \<Rightarrow> (string \<rightharpoonup> (string \<rightharpoonup> 'v)) \<Rightarrow> 'v supervisor
     \<Rightarrow> (raised + unit) \<times> 'v supervisor" where
  "initialize_workflow E now data_path config self =
     (let self1 = self\<lparr>sup_config := Some config,
                       sup_log := sup_log self
                         @ [LogInfo ''Iniciando workflow de analisis oceanografico'']\<rparr>
      in case register_agents E config agent_table of
           Inl e \<Rightarrow> (Inl (Exception e), self1)
         | Inr agents' \<Rightarrow>
             (case configure_agents E data_path (self1\<lparr>sup_agents := agents'\<rparr>) of
                (Inl e, self2) \<Rightarrow> (Inl e, self2)
              | (Inr _, self2) \<Rightarrow>
                  (case interview_agents E self2 of
                     (Inl e, self3) \<Rightarrow> (Inl e, self3)
                   | (Inr _, self3) \<Rightarrow>
                       (Inr (),
                        self3\<lparr>workflow_status := Some (initialized_status now)\<rparr>))))"

text \<open>An environment for running the supervisor on a concrete input: every class
  starts from an empty configuration, no API key is set, every path exists.\<close>

definition bare_environment :: "nat environment" where
  "bare_environment =
     \<lparr>default_config = (\<lambda>cls. Map.empty), tavily_api_key = None,
      tavily_client = (\<lambda>k. None), mkdir_cache = None,
      make_reference_masses = (\<lambda>v. Inr v), path_exists = (\<lambda>p. Inr True),
      invoke = (\<lambda>a m. Inr a)\<rparr>"

text \<open>The same environment with an API key set.\<close>

definition keyed_environment :: "nat environment" where
  "keyed_environment = bare_environment\<lparr>tavily_api_key := Some ''tvly-key''\<rparr>"


section \<open>Theorems\<close>

subsection \<open>The communication protocol never enqueues\<close>

text \<open>
  Claim C10. For every sender, receiver, message type, content and channel,
  \<open>send_message\<close> raises \<open>NameError\<close> for \<open>datetime\<close>, which the module never binds,
  and leaves the channel as it was: no envelope is enqueued.
\<close>

theorem send_message_raises_NameError:
  "send_message now s r t c channel = (Inl (NameError ''datetime''), channel)"
  by (simp add: send_message_def resolve_name_def orchestrator_module_names_def)

subsection \<open>Python floats\<close>

lemma two_powr_int: "(2::real) powr (of_int k) = 2 powi k"
  by (simp add: powr_real_of_int')

lemma floor_log2_eq:
  assumes "0 < y" "2 powi e \<le> y" "y < 2 powi (e + 1)"
  shows "\<lfloor>log 2 y\<rfloor> = e"
proof -
  have "2 powr (of_int e) \<le> y"
    using assms(2) by (simp only: two_powr_int)
  then have lo: "of_int e \<le> log 2 y"
    using assms(1) by (simp add: le_log_iff)
  have "y < 2 powr (of_int (e + 1))"
    using assms(3) by (simp only: two_powr_int)
  then have "log 2 y < of_int (e + 1)"
    using assms(1) by (subst log_less_iff) simp_all
  then have hi: "log 2 y < of_int e + 1" by simp
  from lo hi show ?thesis by (simp add: floor_eq_iff)
qed

text \<open>
  The rounding of a concrete number, from its binary exponent \<open>e\<close> and the integer
  \<open>n\<close> that its scaled value rounds to.
\<close>

lemma to_double_eval:
  assumes "x \<noteq> 0" and "2 powi e \<le> \<bar>x\<bar>" and "\<bar>x\<bar> < 2 powi (e + 1)"
    and "q = max (e - 52) (- 1074)"
    and "round_half_even (x / 2 powi q) = n"
    and "\<bar>of_int n * 2 powi q\<bar> < (2::real) ^ 1024"
  shows "to_double x = Finite (of_int n * 2 powi q)"
proof -
  from assms(1) have "0 < \<bar>x\<bar>" by simp
  from floor_log2_eq [OF this assms(2,3)] assms(4) have "quantum x = q"
    by (simp add: quantum_def)
  with assms(1,5) have "round_nearest x = of_int n * 2 powi q"
    by (simp add: round_nearest_def)
  with assms(6) show ?thesis
    by (auto simp: to_double_def Let_def abs_if split: if_splits)
qed

text \<open>The two thresholds: the float \<open>0.8\<close>, and the float product \<open>0.8 * 0.8\<close>, which
  is \<open>0.6400000000000001\<close>, one float above the float \<open>0.64\<close>.\<close>

lemma quality_threshold_value:
  "quality_threshold = Finite (7205759403792794 / 2 ^ 53)"
proof -
  have d08: "to_double (8 / 10) = Finite (3602879701896397 / 4503599627370496)"
    by (rule to_double_eval [where e = "- 1" and n = 7205759403792794 and q = "- 53", THEN trans])
       (simp_all add: round_half_even_def Let_def)
  show ?thesis
    unfolding quality_threshold_def by (simp only: d08) simp
qed

lemma minor_threshold_value:
  "fmul quality_threshold (to_double (8 / 10)) = Finite (5764607523034236 / 2 ^ 53)"
proof -
  have d08: "to_double (8 / 10) = Finite (3602879701896397 / 4503599627370496)"
    by (rule to_double_eval [where e = "- 1" and n = 7205759403792794 and q = "- 53", THEN trans])
       (simp_all add: round_half_even_def Let_def)
  have lo: "fmul (Finite (3602879701896397 / 4503599627370496)) (Finite (3602879701896397 / 4503599627370496)) = Finite (1441151880758559 / 2251799813685248)"
    unfolding fmul.simps
    by (rule to_double_eval [where e = "- 1" and n = 5764607523034236 and q = "- 53", THEN trans])
       (simp_all add: round_half_even_def Let_def)
  show ?thesis
    unfolding quality_threshold_def by (simp only: d08 lo) simp
qed

text \<open>The final scores of three inputs, each operation rounded.\<close>

lemma final_score_boundary:
  "final_score_of (Finite (1 / 2)) (to_double (6 / 10)) (Finite 1) = Finite (5764607523034235 / 9007199254740992)"
proof -
  have d04: "to_double (4 / 10) = Finite (3602879701896397 / 9007199254740992)"
    by (rule to_double_eval [where e = "- 2" and n = 7205759403792794 and q = "- 54", THEN trans])
       (simp_all add: round_half_even_def Let_def)
  have d02: "to_double (2 / 10) = Finite (3602879701896397 / 18014398509481984)"
    by (rule to_double_eval [where e = "- 3" and n = 7205759403792794 and q = "- 55", THEN trans])
       (simp_all add: round_half_even_def Let_def)
  have q: "to_double (6 / 10) = Finite (5404319552844595 / 9007199254740992)"
    by (rule to_double_eval [where e = "- 1" and n = 5404319552844595 and q = "- 53", THEN trans])
       (simp_all add: round_half_even_def Let_def)
  have p1: "fmul (Finite (1 / 2)) (Finite (3602879701896397 / 9007199254740992)) = Finite (3602879701896397 / 18014398509481984)"
    unfolding fmul.simps
    by (rule to_double_eval [where e = "- 3" and n = 7205759403792794 and q = "- 55", THEN trans])
       (simp_all add: round_half_even_def Let_def)
  have p2: "fmul (Finite (5404319552844595 / 9007199254740992)) (Finite (3602879701896397 / 9007199254740992)) = Finite (1080863910568919 / 4503599627370496)"
    unfolding fmul.simps
    by (rule to_double_eval [where e = "- 3" and n = 8646911284551352 and q = "- 55", THEN trans])
       (simp_all add: round_half_even_def Let_def)
  have s1: "fadd (Finite (3602879701896397 / 18014398509481984)) (Finite (1080863910568919 / 4503599627370496)) = Finite (7926335344172073 / 18014398509481984)"
    unfolding fadd.simps
    by (rule to_double_eval [where e = "- 2" and n = 7926335344172073 and q = "- 54", THEN trans])
       (simp_all add: round_half_even_def Let_def)
  have p3: "fmul (Finite (1)) (Finite (3602879701896397 / 18014398509481984)) = Finite (3602879701896397 / 18014398509481984)"
    unfolding fmul.simps
    by (rule to_double_eval [where e = "- 3" and n = 7205759403792794 and q = "- 55", THEN trans])
       (simp_all add: round_half_even_def Let_def)
  have f: "fadd (Finite (7926335344172073 / 18014398509481984)) (Finite (3602879701896397 / 18014398509481984)) = Finite (5764607523034235 / 9007199254740992)"
    unfolding fadd.simps
    by (rule to_double_eval [where e = "- 1" and n = 5764607523034235 and q = "- 53", THEN trans])
       (simp_all add: round_half_even_def Let_def)
  show ?thesis
    unfolding final_score_of_def
    by (simp only: d04 d02 q p1 p2 s1 p3 f)
qed

lemma final_score_minor:
  "final_score_of (to_double (7 / 10)) (to_double (7 / 10)) (to_double (7 / 10)) = Finite (3152519739159347 / 4503599627370496)"
proof -
  have d04: "to_double (4 / 10) = Finite (3602879701896397 / 9007199254740992)"
    by (rule to_double_eval [where e = "- 2" and n = 7205759403792794 and q = "- 54", THEN trans])
       (simp_all add: round_half_even_def Let_def)
  have d02: "to_double (2 / 10) = Finite (3602879701896397 / 18014398509481984)"
    by (rule to_double_eval [where e = "- 3" and n = 7205759403792794 and q = "- 55", THEN trans])
       (simp_all add: round_half_even_def Let_def)
  have a: "to_double (7 / 10) = Finite (3152519739159347 / 4503599627370496)"
    by (rule to_double_eval [where e = "- 1" and n = 6305039478318694 and q = "- 53", THEN trans])
       (simp_all add: round_half_even_def Let_def)
  have q: "to_double (7 / 10) = Finite (3152519739159347 / 4503599627370496)"
    by (rule to_double_eval [where e = "- 1" and n = 6305039478318694 and q = "- 53", THEN trans])
       (simp_all add: round_half_even_def Let_def)
  have u: "to_double (7 / 10) = Finite (3152519739159347 / 4503599627370496)"
    by (rule to_double_eval [where e = "- 1" and n = 6305039478318694 and q = "- 53", THEN trans])
       (simp_all add: round_half_even_def Let_def)
  have p1: "fmul (Finite (3152519739159347 / 4503599627370496)) (Finite (3602879701896397 / 9007199254740992)) = Finite (5044031582654955 / 18014398509481984)"
    unfolding fmul.simps
    by (rule to_double_eval [where e = "- 2" and n = 5044031582654955 and q = "- 54", THEN trans])
       (simp_all add: round_half_even_def Let_def)
  have p2: "fmul (Finite (3152519739159347 / 4503599627370496)) (Finite (3602879701896397 / 9007199254740992)) = Finite (5044031582654955 / 18014398509481984)"
    unfolding fmul.simps
    by (rule to_double_eval [where e = "- 2" and n = 5044031582654955 and q = "- 54", THEN trans])
       (simp_all add: round_half_even_def Let_def)
  have s1: "fadd (Finite (5044031582654955 / 18014398509481984)) (Finite (5044031582654955 / 18014398509481984)) = Finite (5044031582654955 / 9007199254740992)"
    unfolding fadd.simps
    by (rule to_double_eval [where e = "- 1" and n = 5044031582654955 and q = "- 53", THEN trans])
       (simp_all add: round_half_even_def Let_def)
  have p3: "fmul (Finite (3152519739159347 / 4503599627370496)) (Finite (3602879701896397 / 18014398509481984)) = Finite (5044031582654955 / 36028797018963968)"
    unfolding fmul.simps
    by (rule to_double_eval [where e = "- 3" and n = 5044031582654955 and q = "- 55", THEN trans])
       (simp_all add: round_half_even_def Let_def)
  have f: "fadd (Finite (5044031582654955 / 9007199254740992)) (Finite (5044031582654955 / 36028797018963968)) = Finite (3152519739159347 / 4503599627370496)"
    unfolding fadd.simps
    by (rule to_double_eval [where e = "- 1" and n = 6305039478318694 and q = "- 53", THEN trans])
       (simp_all add: round_half_even_def Let_def)
  show ?thesis
    unfolding final_score_of_def
    by (simp only: d04 d02 a q u p1 p2 s1 p3 f)
qed

lemma final_score_approved:
  "final_score_of (to_double (9 / 10)) (to_double (9 / 10)) (Finite 1) = Finite (4143311657180857 / 4503599627370496)"
proof -
  have d04: "to_double (4 / 10) = Finite (3602879701896397 / 9007199254740992)"
    by (rule to_double_eval [where e = "- 2" and n = 7205759403792794 and q = "- 54", THEN trans])
       (simp_all add: round_half_even_def Let_def)
  have d02: "to_double (2 / 10) = Finite (3602879701896397 / 18014398509481984)"
    by (rule to_double_eval [where e = "- 3" and n = 7205759403792794 and q = "- 55", THEN trans])
       (simp_all add: round_half_even_def Let_def)
  have a: "to_double (9 / 10) = Finite (8106479329266893 / 9007199254740992)"
    by (rule to_double_eval [where e = "- 1" and n = 8106479329266893 and q = "- 53", THEN trans])
       (simp_all add: round_half_even_def Let_def)
  have q: "to_double (9 / 10) = Finite (8106479329266893 / 9007199254740992)"
    by (rule to_double_eval [where e = "- 1" and n = 8106479329266893 and q = "- 53", THEN trans])
       (simp_all add: round_half_even_def Let_def)
  have p1: "fmul (Finite (8106479329266893 / 9007199254740992)) (Finite (3602879701896397 / 9007199254740992)) = Finite (6485183463413515 / 18014398509481984)"
    unfolding fmul.simps
    by (rule to_double_eval [where e = "- 2" and n = 6485183463413515 and q = "- 54", THEN trans])
       (simp_all add: round_half_even_def Let_def)
  have p2: "fmul (Finite (8106479329266893 / 9007199254740992)) (Finite (3602879701896397 / 9007199254740992)) = Finite (6485183463413515 / 18014398509481984)"
    unfolding fmul.simps
    by (rule to_double_eval [where e = "- 2" and n = 6485183463413515 and q = "- 54", THEN trans])
       (simp_all add: round_half_even_def Let_def)
  have s1: "fadd (Finite (6485183463413515 / 18014398509481984)) (Finite (6485183463413515 / 18014398509481984)) = Finite (6485183463413515 / 9007199254740992)"
    unfolding fadd.simps
    by (rule to_double_eval [where e = "- 1" and n = 6485183463413515 and q = "- 53", THEN trans])
       (simp_all add: round_half_even_def Let_def)
  have p3: "fmul (Finite (1)) (Finite (3602879701896397 / 18014398509481984)) = Finite (3602879701896397 / 18014398509481984)"
    unfolding fmul.simps
    by (rule to_double_eval [where e = "- 3" and n = 7205759403792794 and q = "- 55", THEN trans])
       (simp_all add: round_half_even_def Let_def)
  have f: "fadd (Finite (6485183463413515 / 9007199254740992)) (Finite (3602879701896397 / 18014398509481984)) = Finite (4143311657180857 / 4503599627370496)"
    unfolding fadd.simps
    by (rule to_double_eval [where e = "- 1" and n = 8286623314361714 and q = "- 53", THEN trans])
       (simp_all add: round_half_even_def Let_def)
  show ?thesis
    unfolding final_score_of_def
    by (simp only: d04 d02 a q p1 p2 s1 p3 f)
qed

subsection \<open>The approval verdict\<close>

lemma determine_approval_status_eq:
  "determine_approval_status calc_auto calc_quality calc_user auto_review quality_eval
       user_feedback =
     (case calc_auto auto_review of
        Inl e \<Rightarrow> Inl e
      | Inr auto_score \<Rightarrow>
     (case calc_quality quality_eval of
        Inl e \<Rightarrow> Inl e
      | Inr quality_score \<Rightarrow>
     (case (if truthy user_feedback then calc_user (the user_feedback)
            else Inr (Finite 1)) of
        Inl e \<Rightarrow> Inl e
      | Inr user_score \<Rightarrow>
          (let final_score = final_score_of auto_score quality_score user_score
           in if fge final_score (Finite (7205759403792794 / 2 ^ 53)) then Inr ''approved''
              else if fge final_score (Finite (5764607523034236 / 2 ^ 53))
              then Inr ''needs_minor_revision''
              else Inr ''needs_major_revision''))))"
  unfolding determine_approval_status_def final_score_of_def minor_threshold_value
  unfolding quality_threshold_value
  by (rule refl)

lemma fge_lower:
  "fge x (Finite (7205759403792794 / 2 ^ 53)) \<Longrightarrow> fge x (Finite (5764607523034236 / 2 ^ 53))"
  by (cases x) simp_all

text \<open>
  Claim C1, as the code has it. When the automated-review score and the quality score
  have been computed, the user score is \<open>1.0\<close> without user feedback (\<open>None\<close> or an
  empty dictionary) and the score derived from the feedback otherwise; the final score is
  \<open>auto * 0.4 + quality * 0.4 + user * 0.2\<close> in float arithmetic, each product and sum
  rounded; the verdict is \<open>approved\<close> iff the final score is at least the float \<open>0.8\<close>,
  \<open>needs_minor_revision\<close> iff it is below that and at least the float product
  \<open>0.8 * 0.8\<close>, which is \<open>5764607523034236 / 2 ^ 53\<close> (\<open>0.6400000000000001\<close>), and
  \<open>needs_major_revision\<close> otherwise.
\<close>

theorem determine_approval_status_float_verdict:
  assumes auto: "calc_auto auto_review = Inr auto_score"
    and quality: "calc_quality quality_eval = Inr quality_score"
    and user: "truthy user_feedback \<Longrightarrow> calc_user (the user_feedback) = Inr fb_score"
    and user_score: "user_score = (if truthy user_feedback then fb_score else Finite 1)"
    and final: "final_score = final_score_of auto_score quality_score user_score"
  shows "\<exists>verdict.
           determine_approval_status calc_auto calc_quality calc_user
             auto_review quality_eval user_feedback = Inr verdict
         \<and> (verdict = ''approved'' \<longleftrightarrow>
              fge final_score (Finite (7205759403792794 / 2 ^ 53)))
         \<and> (verdict = ''needs_minor_revision'' \<longleftrightarrow>
              fge final_score (Finite (5764607523034236 / 2 ^ 53))
              \<and> \<not> fge final_score (Finite (7205759403792794 / 2 ^ 53)))
         \<and> (verdict = ''needs_major_revision'' \<longleftrightarrow>
              \<not> fge final_score (Finite (5764607523034236 / 2 ^ 53)))"
proof -
  have u: "(if truthy user_feedback then calc_user (the user_feedback) else Inr (Finite 1))
             = Inr user_score"
    using user user_score by simp
  have eq: "determine_approval_status calc_auto calc_quality calc_user
              auto_review quality_eval user_feedback =
            (if fge final_score (Finite (7205759403792794 / 2 ^ 53)) then Inr ''approved''
             else if fge final_score (Finite (5764607523034236 / 2 ^ 53))
             then Inr ''needs_minor_revision''
             else Inr ''needs_major_revision'')"
    unfolding determine_approval_status_eq auto quality u final by (simp add: Let_def)
  show ?thesis
    unfolding eq using fge_lower [of final_score] by auto
qed

theorem determine_approval_status_float_verdict_witness:
  "determine_approval_status (\<lambda>r::unit. Inr (to_double (7 / 10)))
       (\<lambda>q::unit. Inr (to_double (7 / 10)))
       (\<lambda>u::(string \<times> unit) list. Inr (to_double (7 / 10))) () ()
       (Some [(''rating'', ())])
     = Inr ''needs_minor_revision''
   \<and> determine_approval_status (\<lambda>r::unit. Inr (to_double (9 / 10)))
       (\<lambda>q::unit. Inr (to_double (9 / 10)))
       (\<lambda>u::(string \<times> unit) list. Inr (Finite 0)) () () None
     = Inr ''approved''"
proof -
  have a: "\<exists>verdict.
      determine_approval_status (\<lambda>r::unit. Inr (to_double (7 / 10)))
        (\<lambda>q::unit. Inr (to_double (7 / 10)))
        (\<lambda>u::(string \<times> unit) list. Inr (to_double (7 / 10))) () ()
        (Some [(''rating'', ())]) = Inr verdict
      \<and> (verdict = ''approved'' \<longleftrightarrow>
           fge (Finite (3152519739159347 / 4503599627370496))
             (Finite (7205759403792794 / 2 ^ 53)))
      \<and> (verdict = ''needs_minor_revision'' \<longleftrightarrow>
           fge (Finite (3152519739159347 / 4503599627370496))
             (Finite (5764607523034236 / 2 ^ 53))
           \<and> \<not> fge (Finite (3152519739159347 / 4503599627370496))
                 (Finite (7205759403792794 / 2 ^ 53)))
      \<and> (verdict = ''needs_major_revision'' \<longleftrightarrow>
           \<not> fge (Finite (3152519739159347 / 4503599627370496))
               (Finite (5764607523034236 / 2 ^ 53)))"
    by (rule determine_approval_status_float_verdict
          [where fb_score = "to_double (7 / 10)" and user_score = "to_double (7 / 10)"
             and auto_score = "to_double (7 / 10)" and quality_score = "to_double (7 / 10)"])
       (simp_all only: final_score_minor truthy.simps option.sel if_True)
  have b: "\<exists>verdict.
      determine_approval_status (\<lambda>r::unit. Inr (to_double (9 / 10)))
        (\<lambda>q::unit. Inr (to_double (9 / 10)))
        (\<lambda>u::(string \<times> unit) list. Inr (Finite 0)) () () None = Inr verdict
      \<and> (verdict = ''approved'' \<longleftrightarrow>
           fge (Finite (4143311657180857 / 4503599627370496))
             (Finite (7205759403792794 / 2 ^ 53)))
      \<and> (verdict = ''needs_minor_revision'' \<longleftrightarrow>
           fge (Finite (4143311657180857 / 4503599627370496))
             (Finite (5764607523034236 / 2 ^ 53))
           \<and> \<not> fge (Finite (4143311657180857 / 4503599627370496))
                 (Finite (7205759403792794 / 2 ^ 53)))
      \<and> (verdict = ''needs_major_revision'' \<longleftrightarrow>
           \<not> fge (Finite (4143311657180857 / 4503599627370496))
               (Finite (5764607523034236 / 2 ^ 53)))"
    by (rule determine_approval_status_float_verdict
          [where fb_score = "Finite 0" and user_score = "Finite 1"
             and auto_score = "to_double (9 / 10)" and quality_score = "to_double (9 / 10)"])
       (simp_all only: final_score_approved truthy.simps if_False)
  from a b show ?thesis by auto
qed

text \<open>
  At the scores \<open>0.5\<close> and \<open>0.6\<close> without user feedback the final score is the float
  \<open>0.64\<close>, which lies in \<open>[0.64, 0.8)\<close>, and the verdict is \<open>needs_major_revision\<close>.
\<close>

theorem determine_approval_status_boundary_major:
  "determine_approval_status (\<lambda>r::unit. Inr (Finite (1 / 2)))
       (\<lambda>q::unit. Inr (to_double (6 / 10)))
       (\<lambda>u::(string \<times> unit) list. Inr (Finite 1)) () () None
     = Inr ''needs_major_revision''
   \<and> final_score_of (Finite (1 / 2)) (to_double (6 / 10)) (Finite 1)
     = Finite (5764607523034235 / 2 ^ 53)
   \<and> (64 / 100 :: real) \<le> 5764607523034235 / 2 ^ 53
   \<and> (5764607523034235 / 2 ^ 53 :: real) < 8 / 10"
proof -
  have f: "final_score_of (Finite (1 / 2)) (to_double (6 / 10)) (Finite 1)
             = Finite (5764607523034235 / 2 ^ 53)"
    by (simp only: final_score_boundary) simp
  have "determine_approval_status (\<lambda>r::unit. Inr (Finite (1 / 2)))
       (\<lambda>q::unit. Inr (to_double (6 / 10)))
       (\<lambda>u::(string \<times> unit) list. Inr (Finite 1)) () () None
     = Inr ''needs_major_revision''"
    unfolding determine_approval_status_eq
    by (simp only: truthy.simps if_False sum.case Let_def f) simp
  with f show ?thesis by simp
qed

text \<open>The verdict at the scores \<open>0.9\<close> and \<open>0.9\<close> without user feedback.\<close>

lemma determine_approval_status_approved_example:
  "determine_approval_status (\<lambda>a. Inr (to_double (9 / 10))) (\<lambda>q. Inr (to_double (9 / 10)))
       calc_user auto_review quality_eval None = Inr ''approved''"
  unfolding determine_approval_status_eq
  by (simp only: truthy.simps if_False sum.case Let_def final_score_approved) simp

subsection \<open>Verification of the outputs\<close>







subsection \<open>Feedback on a stage\<close>

lemma unchanging_pure: "unchanging m \<Longrightarrow> \<exists>a. \<forall>s. m s = (a, s)"
  by (metis prod.collapse unchanging_def)

lemma pure_unchanging: "\<forall>s. m s = (a, s) \<Longrightarrow> unchanging m"
  by (simp add: unchanging_def)

lemma evaluate_results_pure:
  assumes "deterministic_helpers H stage results"
  shows "\<exists>a. \<forall>s. evaluate_results H stage results s = (a, s)"
proof -
  from assms have u:
    "unchanging (check_completeness H stage results)"
    "unchanging (assess_quality H stage results)"
    "unchanging (verify_consistency H stage results)"
    "unchanging (identify_issues H stage results)"
    by (simp_all add: deterministic_helpers_def)
  from unchanging_pure [OF u(1)] obtain c where
    c: "\<forall>s. check_completeness H stage results s = (c, s)" by blast
  from unchanging_pure [OF u(2)] obtain q where
    q: "\<forall>s. assess_quality H stage results s = (q, s)" by blast
  from unchanging_pure [OF u(3)] obtain k where
    k: "\<forall>s. verify_consistency H stage results s = (k, s)" by blast
  from unchanging_pure [OF u(4)] obtain i where
    i: "\<forall>s. identify_issues H stage results s = (i, s)" by blast
  from c q k i
  have "\<forall>s. evaluate_results H stage results s =
          (case c of Inl e \<Rightarrow> Inl e
           | Inr cv \<Rightarrow>
               (case q of Inl e \<Rightarrow> Inl e
                | Inr qv \<Rightarrow>
                    (case k of Inl e \<Rightarrow> Inl e
                     | Inr kv \<Rightarrow>
                         (case i of Inl e \<Rightarrow> Inl e
                          | Inr iv \<Rightarrow>
                              Inr \<lparr>completeness = cv, quality = qv, consistency = kv,
                                    issues = iv\<rparr>))), s)"
    by (simp add: evaluate_results_def split: sum.splits)
  then show ?thesis by blast
qed

lemma calculate_quality_metrics_pure:
  assumes "deterministic_helpers H stage results"
  shows "\<exists>a. \<forall>s. calculate_quality_metrics H stage results s = (a, s)"
proof -
  from assms have u:
    "unchanging (calculate_parsing_metrics H results)"
    "unchanging (calculate_qa_metrics H results)"
    "unchanging (calculate_analysis_metrics H results)"
    "unchanging (calculate_report_metrics H results)"
    by (simp_all add: deterministic_helpers_def)
  from unchanging_pure [OF u(1)] obtain p where
    p: "\<forall>s. calculate_parsing_metrics H results s = (p, s)" by blast
  from unchanging_pure [OF u(2)] obtain q where
    q: "\<forall>s. calculate_qa_metrics H results s = (q, s)" by blast
  from unchanging_pure [OF u(3)] obtain a where
    a: "\<forall>s. calculate_analysis_metrics H results s = (a, s)" by blast
  from unchanging_pure [OF u(4)] obtain r where
    r: "\<forall>s. calculate_report_metrics H results s = (r, s)" by blast
  let ?upd = "\<lambda>x. case x of Inl e \<Rightarrow> Inl e | Inr m \<Rightarrow> Inr (dict_update [] m)"
  from p q a r
  have "\<forall>s. calculate_quality_metrics H stage results s =
          (if stage = ''parsing'' then ?upd p
           else if stage = ''qa'' then ?upd q
           else if stage = ''analysis'' then ?upd a
           else if stage = ''reporting'' then ?upd r
           else Inr [], s)"
    by (simp add: calculate_quality_metrics_def split: sum.splits)
  then show ?thesis by blast
qed

lemma provide_feedback_pure:
  assumes "deterministic_helpers H stage results"
  shows "\<exists>out. \<forall>now s. provide_feedback H now stage results s =
           (case out of
              Inl e \<Rightarrow> (Inl e, s)
            | Inr fb \<Rightarrow>
                (Inr (fb\<lparr>fb_timestamp := now\<rparr>),
                 s\<lparr>feedback_history := feedback_history s @ [fb\<lparr>fb_timestamp := now\<rparr>]\<rparr>))"
proof -
  from evaluate_results_pure [OF assms] obtain ev where
    ev: "\<forall>s. evaluate_results H stage results s = (ev, s)" by blast
  from calculate_quality_metrics_pure [OF assms] obtain me where
    me: "\<forall>s. calculate_quality_metrics H stage results s = (me, s)" by blast
  from assms have "unchanging (generate_stage_recommendations H stage results)"
    by (simp add: deterministic_helpers_def)
  from unchanging_pure [OF this] obtain re where
    re: "\<forall>s. generate_stage_recommendations H stage results s = (re, s)" by blast
  show ?thesis
  proof (cases ev)
    case (Inl e)
    with ev have "\<forall>now s. provide_feedback H now stage results s =
           (case Inl e of Inl e \<Rightarrow> (Inl e, s)
            | Inr fb \<Rightarrow>
                (Inr (fb\<lparr>fb_timestamp := now\<rparr>),
                 s\<lparr>feedback_history := feedback_history s @ [fb\<lparr>fb_timestamp := now\<rparr>]\<rparr>))"
      by (simp add: provide_feedback_def)
    then show ?thesis by blast
  next
    case evr: (Inr evv)
    show ?thesis
    proof (cases re)
      case (Inl e)
      with ev evr re have "\<forall>now s. provide_feedback H now stage results s =
           (case Inl e of Inl e \<Rightarrow> (Inl e, s)
            | Inr fb \<Rightarrow>
                (Inr (fb\<lparr>fb_timestamp := now\<rparr>),
                 s\<lparr>feedback_history := feedback_history s @ [fb\<lparr>fb_timestamp := now\<rparr>]\<rparr>))"
        by (simp add: provide_feedback_def)
      then show ?thesis by blast
    next
      case rer: (Inr rev)
      show ?thesis
      proof (cases me)
        case (Inl e)
        with ev evr re rer me have "\<forall>now s. provide_feedback H now stage results s =
           (case Inl e of Inl e \<Rightarrow> (Inl e, s)
            | Inr fb \<Rightarrow>
                (Inr (fb\<lparr>fb_timestamp := now\<rparr>),
                 s\<lparr>feedback_history := feedback_history s @ [fb\<lparr>fb_timestamp := now\<rparr>]\<rparr>))"
          by (simp add: provide_feedback_def)
        then show ?thesis by blast
      next
        case (Inr mev)
        let ?fb = "\<lparr>fb_stage = stage, fb_timestamp = 0, fb_evaluation = evv,
                    fb_recommendations = rev, fb_quality_metrics = mev\<rparr>"
        from ev evr re rer me Inr have "\<forall>now s. provide_feedback H now stage results s =
           (case Inr ?fb of Inl e \<Rightarrow> (Inl e, s)
            | Inr fb \<Rightarrow>
                (Inr (fb\<lparr>fb_timestamp := now\<rparr>),
                 s\<lparr>feedback_history := feedback_history s @ [fb\<lparr>fb_timestamp := now\<rparr>]\<rparr>))"
          by (simp add: provide_feedback_def Let_def)
        then show ?thesis by blast
      qed
    qed
  qed
qed

text \<open>
  Claim C7, as the code has it. When the methods that \<open>provide_feedback\<close> calls are
  deterministic (their outcome depends on the stage and its results only) and leave the
  supervisor as it is, a second evaluation of the same output gives the outcome of the
  first: the same exception, the supervisor untouched; or the same record except for its
  timestamp, which is the clock reading of each call, each call changing the supervisor
  only by appending its record to the feedback history.
\<close>

theorem provide_feedback_repeatable:
  assumes "deterministic_helpers H stage results"
  shows "(case provide_feedback H t1 stage results self of
            (Inl e, self1) \<Rightarrow>
              self1 = self \<and> provide_feedback H t2 stage results self1 = (Inl e, self1)
          | (Inr fb1, self1) \<Rightarrow>
              fb_timestamp fb1 = t1
              \<and> self1 = self\<lparr>feedback_history := feedback_history self @ [fb1]\<rparr>
              \<and> provide_feedback H t2 stage results self1
                  = (Inr (fb1\<lparr>fb_timestamp := t2\<rparr>),
                     self1\<lparr>feedback_history :=
                             feedback_history self1 @ [fb1\<lparr>fb_timestamp := t2\<rparr>]\<rparr>))"
proof -
  from provide_feedback_pure [OF assms] obtain out where
    out: "\<And>now s. provide_feedback H now stage results s =
           (case out of
              Inl e \<Rightarrow> (Inl e, s)
            | Inr fb \<Rightarrow>
                (Inr (fb\<lparr>fb_timestamp := now\<rparr>),
                 s\<lparr>feedback_history := feedback_history s @ [fb\<lparr>fb_timestamp := now\<rparr>]\<rparr>))"
    by blast
  show ?thesis by (cases out) (simp_all add: out)
qed

text \<open>The repository's own (missing) methods and the constant ones are
  deterministic and leave the supervisor as it is.\<close>

lemma undefined_helpers_deterministic:
  "deterministic_helpers undefined_stage_helpers stage results"
  by (simp add: deterministic_helpers_def undefined_stage_helpers_def unchanging_def)

lemma constant_helpers_deterministic:
  "deterministic_helpers constant_helpers stage results"
  by (simp add: deterministic_helpers_def constant_helpers_def unchanging_def)

theorem provide_feedback_repeatable_witness:
  "provide_feedback constant_helpers 1 ''qa'' ()
     (snd (provide_feedback constant_helpers 0 ''qa'' () new_supervisor))
   = (Inr \<lparr>fb_stage = ''qa'', fb_timestamp = 1,
           fb_evaluation = \<lparr>completeness = 1, quality = 1, consistency = 1, issues = 0\<rparr>,
           fb_recommendations = 0, fb_quality_metrics = [(''valid'', Finite 1)]\<rparr>,
      \<lparr>sup_config = None, sup_agents = [], workflow_status = None,
       feedback_history =
         [\<lparr>fb_stage = ''qa'', fb_timestamp = 0,
           fb_evaluation = \<lparr>completeness = 1, quality = 1, consistency = 1, issues = 0\<rparr>,
           fb_recommendations = 0, fb_quality_metrics = [(''valid'', Finite 1)]\<rparr>,
          \<lparr>fb_stage = ''qa'', fb_timestamp = 1,
           fb_evaluation = \<lparr>completeness = 1, quality = 1, consistency = 1, issues = 0\<rparr>,
           fb_recommendations = 0, fb_quality_metrics = [(''valid'', Finite 1)]\<rparr>],
       report_reviews = [], sup_log = []\<rparr>)
   \<and> provide_feedback undefined_stage_helpers 1 ''qa'' ()
       (snd (provide_feedback undefined_stage_helpers 0 ''qa'' ()
               (new_supervisor :: nat supervisor)))
     = (Inl (AttributeError ''_check_completeness''), new_supervisor)"
proof -
  let ?fb = "\<lparr>fb_stage = ''qa'', fb_timestamp = 0,
           fb_evaluation = \<lparr>completeness = 1::nat, quality = 1, consistency = 1, issues = 0\<rparr>,
           fb_recommendations = 0, fb_quality_metrics = [(''valid'', Finite 1)]\<rparr>"
  let ?s1 = "(new_supervisor :: nat supervisor)\<lparr>feedback_history := [?fb]\<rparr>"
  have first: "provide_feedback constant_helpers 0 ''qa'' () new_supervisor = (Inr ?fb, ?s1)"
    by (simp add: provide_feedback_def evaluate_results_def calculate_quality_metrics_def
          constant_helpers_def new_supervisor_def dict_update_def Let_def)
  have first': "provide_feedback undefined_stage_helpers 0 ''qa'' ()
                  (new_supervisor :: nat supervisor)
                = (Inl (AttributeError ''_check_completeness''), new_supervisor)"
    by (simp add: provide_feedback_def evaluate_results_def undefined_stage_helpers_def)
  from provide_feedback_repeatable
         [OF constant_helpers_deterministic, where ?t1.0 = 0 and stage = "''qa''"
            and results = "()" and self = new_supervisor and ?t2.0 = 1] first
  have a: "provide_feedback constant_helpers 1 ''qa'' () ?s1
             = (Inr (?fb\<lparr>fb_timestamp := 1\<rparr>),
                ?s1\<lparr>feedback_history := feedback_history ?s1 @ [?fb\<lparr>fb_timestamp := 1\<rparr>]\<rparr>)"
    by (simp add: new_supervisor_def)
  from provide_feedback_repeatable
         [OF undefined_helpers_deterministic, where ?t1.0 = 0 and stage = "''qa''"
            and results = "()" and self = "new_supervisor :: nat supervisor"
            and ?t2.0 = 1] first'
  have b: "provide_feedback undefined_stage_helpers 1 ''qa'' ()
             (new_supervisor :: nat supervisor)
           = (Inl (AttributeError ''_check_completeness''), new_supervisor)"
    by simp
  have s1: "snd (provide_feedback constant_helpers 0 ''qa'' () new_supervisor) = ?s1"
    by (simp only: first snd_conv)
  have s2: "snd (provide_feedback undefined_stage_helpers 0 ''qa'' ()
                   (new_supervisor :: nat supervisor)) = new_supervisor"
    by (simp only: first' snd_conv)
  show ?thesis
    unfolding s1 s2 a b by (simp add: new_supervisor_def)
qed

text \<open>
  The records of two evaluations of the same output, made at two readings of the clock,
  are different records.
\<close>

theorem provide_feedback_not_byte_identical:
  "fst (provide_feedback constant_helpers 0 ''qa'' () new_supervisor)
   \<noteq> fst (provide_feedback constant_helpers 1 ''qa'' ()
            (snd (provide_feedback constant_helpers 0 ''qa'' () new_supervisor)))"
proof -
  have call: "\<And>now s. fst (provide_feedback constant_helpers now ''qa'' () (s :: nat supervisor))
      = Inr \<lparr>fb_stage = ''qa'', fb_timestamp = now,
             fb_evaluation = \<lparr>completeness = 1, quality = 1, consistency = 1, issues = 0\<rparr>,
             fb_recommendations = 0, fb_quality_metrics = [(''valid'', Finite 1)]\<rparr>"
    by (simp add: provide_feedback_def evaluate_results_def calculate_quality_metrics_def
          constant_helpers_def dict_update_def Let_def)
  show ?thesis unfolding call by simp
qed

subsection \<open>Review of the report\<close>

lemma review_report_cases:
  "(case review_report R now p uf self of
      (Inl e, self') \<Rightarrow> self' = self
    | (Inr r, self') \<Rightarrow> self' = self\<lparr>report_reviews := report_reviews self @ [r]\<rparr>)"
  by (simp add: review_report_def Let_def split: sum.splits)

lemma review_report_prefix:
  "prefix (report_reviews self) (report_reviews (snd (review_report R now p uf self)))"
  using review_report_cases [where R = R and now = now and p = p and uf = uf and self = self]
  by (auto split: prod.splits sum.splits)

lemma review_report_length:
  "length (report_reviews (snd (review_report R now p uf self)))
     \<le> Suc (length (report_reviews self))"
  using review_report_cases [where R = R and now = now and p = p and uf = uf and self = self]
  by (auto split: prod.splits sum.splits)

lemma review_reports_prefix:
  "prefix (report_reviews self) (report_reviews (review_reports R calls self))"
proof (induction calls arbitrary: self)
  case Nil
  then show ?case by simp
next
  case (Cons c calls)
  obtain now p uf where c: "c = (now, p, uf)" by (cases c) auto
  have "prefix (report_reviews self)
          (report_reviews (snd (review_report R now p uf self)))"
    by (rule review_report_prefix)
  also have "prefix \<dots> (report_reviews
          (review_reports R calls (snd (review_report R now p uf self))))"
    by (rule Cons.IH)
  finally show ?case by (simp add: c)
qed

lemma review_reports_length:
  "length (report_reviews (review_reports R calls self))
     \<le> length (report_reviews self) + length calls"
proof (induction calls arbitrary: self)
  case Nil
  then show ?case by simp
next
  case (Cons c calls)
  obtain now p uf where c: "c = (now, p, uf)" by (cases c) auto
  from Cons.IH [of "snd (review_report R now p uf self)"]
       review_report_length [of R now p uf self]
  show ?case by (simp add: c)
qed

text \<open>
  Claim C8, as the code has it. A call of \<open>review_report\<close> that returns appends
  exactly one result, the one it returns, at the end of the review history and changes
  nothing else; a call that raises leaves the supervisor as it was. Over every sequence of
  calls the history that was there before stays, unchanged, as the front of the history
  after, and it grows by at most one result per call.
\<close>

theorem review_report_append_only:
  "(case review_report R now p uf self of
      (Inl e, self') \<Rightarrow> self' = self
    | (Inr r, self') \<Rightarrow> self' = self\<lparr>report_reviews := report_reviews self @ [r]\<rparr>)
   \<and> prefix (report_reviews self) (report_reviews (review_reports R calls self))
   \<and> length (report_reviews (review_reports R calls self))
        \<le> length (report_reviews self) + length calls"
  by (intro conjI review_report_cases review_reports_prefix review_reports_length)

theorem review_report_append_only_witness:
  "snd (review_report constant_review_helpers 7 ''report.md'' None new_supervisor)
     = new_supervisor
         \<lparr>report_reviews :=
            [\<lparr>rv_timestamp = 7, rv_status = ''pending'', rv_feedback = [],
              rv_recommendations = [], rv_approval_status = ''approved'',
              rv_automated_review = 1, rv_user_feedback = None,
              rv_quality_evaluation = 2\<rparr>]\<rparr>"
proof -
  have r: "review_report constant_review_helpers 7 ''report.md'' None new_supervisor
    = (Inr \<lparr>rv_timestamp = 7, rv_status = ''pending'', rv_feedback = [],
              rv_recommendations = [], rv_approval_status = ''approved'',
              rv_automated_review = 1, rv_user_feedback = None,
              rv_quality_evaluation = 2\<rparr>,
       snd (review_report constant_review_helpers 7 ''report.md'' None new_supervisor))"
    by (simp add: review_report_def constant_review_helpers_def
          determine_approval_status_approved_example Let_def)
  from review_report_append_only
         [where R = constant_review_helpers and now = 7 and p = "''report.md''"
            and uf = None and self = new_supervisor and calls = "[]"]
  show ?thesis
    by (subst (asm) r) (simp add: new_supervisor_def)
qed

text \<open>
  A call that raises appends nothing: with the repository's own (missing) helper
  methods the first of them raises \<open>AttributeError\<close> and the review history stays
  empty.
\<close>

theorem review_report_failed_call_appends_nothing:
  "fst (review_report undefined_review_helpers 0 ''report.md'' None
          (new_supervisor :: nat supervisor))
     = Inl (AttributeError ''_perform_automated_review'')
   \<and> report_reviews (snd (review_report undefined_review_helpers 0 ''report.md'' None
          (new_supervisor :: nat supervisor))) = []"
  by (simp add: review_report_def undefined_review_helpers_def new_supervisor_def)

subsection \<open>The workflow manager\<close>

lemma demo_execute_agent [simp]:
  "execute_agent demo_helpers a d =
     (if a = ''parser'' then Inr [''temperature'' \<mapsto> 15]
      else if a = ''analyst'' then Inr [''figures'' \<mapsto> 1]
      else if a = ''stats'' then Inr [''mean'' \<mapsto> 2]
      else if a = ''report'' then Inl (OtherError ''report failed'')
      else Inr d)"
  by (simp add: execute_agent_def demo_helpers_def)

text \<open>
  Claim C3, as the code has it. In a sequential stage with consecutive units A then B,
  when A has completed its output is merged into \<open>input_data\<close> by \<open>dict.update\<close>
  before B starts: B is executed on \<open>input_data\<close> updated with A's output, in which
  every key of A's output holds A's value and every other key holds what it held before.
\<close>

theorem run_sequential_merges_output:
  assumes "execute_agent M A input_data = Inr out_A"
  shows "run_sequential M (A # B # rest) results input_data =
           (case execute_agent M B (input_data ++ out_A) of
              Inl e \<Rightarrow> (Inl e, input_data ++ out_A)
            | Inr out_B \<Rightarrow>
                run_sequential M rest (results @ [out_A, out_B])
                  (input_data ++ out_A ++ out_B))
         \<and> (\<forall>k \<in> dom out_A. (input_data ++ out_A) k = out_A k)
         \<and> (\<forall>k. k \<notin> dom out_A \<longrightarrow> (input_data ++ out_A) k = input_data k)"
  using assms by (auto simp: map_add_def split: sum.splits option.splits)

theorem run_sequential_merges_output_witness:
  "run_sequential demo_helpers [''parser'', ''qa''] [] Map.empty =
     (Inr [[''temperature'' \<mapsto> 15], [''temperature'' \<mapsto> 15]], [''temperature'' \<mapsto> 15])"
proof -
  have a: "execute_agent demo_helpers ''parser'' Map.empty = Inr [''temperature'' \<mapsto> 15]"
    by simp
  from run_sequential_merges_output [OF a, of "''qa''" "[]" "[]"]
  show ?thesis by (simp del: run_sequential.simps(2))
qed

text \<open>
  With \<open>parser\<close> returning \<open>{temperature: 15}\<close> and \<open>qa\<close> returning the dictionary
  it was given, the input of \<open>qa\<close> is \<open>{temperature: 15}\<close>: it has no key
  \<open>parser\<close>, and neither has \<open>input_data\<close> after the stage.
\<close>

theorem run_sequential_not_keyed_by_unit_name:
  "fst (run_sequential demo_helpers [''parser'', ''qa''] [] Map.empty)
     = Inr [[''temperature'' \<mapsto> 15], [''temperature'' \<mapsto> 15]]
   \<and> [''temperature'' \<mapsto> (15::int)] ''parser'' = None
   \<and> snd (run_sequential demo_helpers [''parser'', ''qa''] [] Map.empty) ''parser'' = None"
  by simp


subsection \<open>A parallel stage\<close>


















subsection \<open>Coordination of the analysis\<close>

text \<open>
  Claim C2, as the code has it. When a stage of \<open>coordinate_analysis\<close> raises, after
  the stages before it have returned, the call raises the same exception to the caller
  and no later stage runs: the supervisor is as the failing stage left it, but for the
  record that the handler adds to the log when the exception is under \<open>Exception\<close>.
  \<open>coordinate_analysis\<close> itself does not write \<open>workflow_status\<close>.
\<close>

theorem coordinate_analysis_reraises:
  "(coordinate_parsing C self = (Inl r, s)
      \<longrightarrow> coordinate_analysis C self = (Inl r, after_handler r s))
   \<and> (coordinate_parsing C self = (Inr p, s1) \<and> coordinate_qa C p s1 = (Inl r, s)
      \<longrightarrow> coordinate_analysis C self = (Inl r, after_handler r s))
   \<and> (coordinate_parsing C self = (Inr p, s1) \<and> coordinate_qa C p s1 = (Inr q, s2)
      \<and> coordinate_analysis_phase C q s2 = (Inl r, s)
      \<longrightarrow> coordinate_analysis C self = (Inl r, after_handler r s))
   \<and> (coordinate_parsing C self = (Inr p, s1) \<and> coordinate_qa C p s1 = (Inr q, s2)
      \<and> coordinate_analysis_phase C q s2 = (Inr a, s3) \<and> coordinate_stats C a s3 = (Inl r, s)
      \<longrightarrow> coordinate_analysis C self = (Inl r, after_handler r s))
   \<and> (coordinate_parsing C self = (Inr p, s1) \<and> coordinate_qa C p s1 = (Inr q, s2)
      \<and> coordinate_analysis_phase C q s2 = (Inr a, s3) \<and> coordinate_stats C a s3 = (Inr t, s4)
      \<and> coordinate_water_mass_analysis C a s4 = (Inl r, s)
      \<longrightarrow> coordinate_analysis C self = (Inl r, after_handler r s))
   \<and> (coordinate_parsing C self = (Inr p, s1) \<and> coordinate_qa C p s1 = (Inr q, s2)
      \<and> coordinate_analysis_phase C q s2 = (Inr a, s3) \<and> coordinate_stats C a s3 = (Inr t, s4)
      \<and> coordinate_water_mass_analysis C a s4 = (Inr w, s5)
      \<and> coordinate_reporting C p q a t w s5 = (Inl r, s)
      \<longrightarrow> coordinate_analysis C self = (Inl r, after_handler r s))
   \<and> workflow_status (after_handler r s) = workflow_status s"
  by (cases r) (simp_all add: coordinate_analysis_def coordinate_analysis_body_def)

theorem coordinate_analysis_reraises_witness:
  "coordinate_analysis qa_failing_coordinators
       (new_supervisor\<lparr>workflow_status := Some (initialized_status 0)\<rparr>)
     = (Inl (Exception (ValueError ''no valid samples'')),
        new_supervisor\<lparr>workflow_status := Some (initialized_status 0),
                       sup_log := [ErrorCoordination (ValueError ''no valid samples'')]\<rparr>)
   \<and> coordinate_analysis cancelled_coordinators
       (new_supervisor\<lparr>workflow_status := Some (initialized_status 0)\<rparr>)
     = (Inl (BaseException CancelledError),
        new_supervisor\<lparr>workflow_status := Some (initialized_status 0)\<rparr>)"
proof -
  let ?self = "(new_supervisor :: nat supervisor)\<lparr>workflow_status := Some (initialized_status 0)\<rparr>"
  let ?r = "Exception (ValueError ''no valid samples'')"
  let ?c = "BaseException CancelledError"
  have p: "coordinate_parsing qa_failing_coordinators ?self = (Inr 1, ?self)"
    and q: "coordinate_qa qa_failing_coordinators 1 ?self = (Inl ?r, ?self)"
    and c: "coordinate_parsing cancelled_coordinators ?self = (Inl ?c, ?self)"
    by (simp_all add: qa_failing_coordinators_def cancelled_coordinators_def)
  from coordinate_analysis_reraises
      [where C = qa_failing_coordinators and self = ?self and p = 1 and ?s1.0 = ?self
         and r = ?r and s = ?self and q = 0 and ?s2.0 = ?self and a = 0 and ?s3.0 = ?self
         and t = 0 and ?s4.0 = ?self and w = 0 and ?s5.0 = ?self] p q
  have a: "coordinate_analysis qa_failing_coordinators ?self = (Inl ?r, after_handler ?r ?self)"
    by blast
  from coordinate_analysis_reraises
      [where C = cancelled_coordinators and self = ?self and p = 1 and ?s1.0 = ?self
         and r = ?c and s = ?self and q = 0 and ?s2.0 = ?self and a = 0 and ?s3.0 = ?self
         and t = 0 and ?s4.0 = ?self and w = 0 and ?s5.0 = ?self] c
  have b: "coordinate_analysis cancelled_coordinators ?self = (Inl ?c, after_handler ?c ?self)"
    by blast
  from a b show ?thesis by (simp add: new_supervisor_def)
qed

text \<open>
  On a supervisor whose workflow status is \<open>initialized\<close>, with the repository's own
  (missing) stage methods: the first stage raises, the call raises the same exception,
  and the status is still \<open>initialized\<close>, not \<open>failed\<close>.
\<close>

theorem coordinate_analysis_status_not_failed:
  "fst (coordinate_analysis undefined_coordinators
          ((new_supervisor :: nat supervisor)\<lparr>workflow_status := Some (initialized_status 0)\<rparr>))
     = Inl (Exception (AttributeError ''_coordinate_parsing''))
   \<and> map_option status (workflow_status (snd (coordinate_analysis undefined_coordinators
          ((new_supervisor :: nat supervisor)\<lparr>workflow_status := Some (initialized_status 0)\<rparr>))))
     = Some ''initialized''"
  by (simp add: coordinate_analysis_def coordinate_analysis_body_def
        undefined_coordinators_def new_supervisor_def initialized_status_def)

subsection \<open>Initialisation of the workflow\<close>

lemma construct_class: "construct E cls = Inr agent \<Longrightarrow> agent_class agent = cls"
  by (auto simp: construct_def split: if_splits option.splits)

lemma construct_parser:
  "construct E ParserAgent = Inr \<lparr>agent_class = ParserAgent,
                                   agent_config = default_config E ParserAgent\<rparr>"
  by (simp add: construct_def)

lemma parser_has_no_configure: "agent_class agent = ParserAgent \<Longrightarrow> \<not> hasattr agent ''configure''"
  by (simp add: hasattr_def)

lemma parser_hasattr:
  "agent_class agent = ParserAgent \<Longrightarrow>
     \<not> hasattr agent ''set_data_path'' \<and> \<not> hasattr agent ''initialize''"
  by (simp add: hasattr_def)

lemma register_agents_data:
  "config ''data'' = Some options \<Longrightarrow>
   register_agents E config agent_table = Inl (AttributeError ''configure'')"
  by (simp add: agent_table_def initialize_agent_def construct_parser configure_def
        hasattr_def)

lemma register_agents_parser_first:
  assumes "register_agents E config agent_table = Inr agents'"
  shows "\<exists>agent rest. agents' = (''parser'', agent) # rest \<and> agent_class agent = ParserAgent"
proof -
  obtain agent where a: "initialize_agent E config ParserAgent ''data'' = Inr agent"
    using assms by (auto simp: agent_table_def split: sum.splits)
  then have "agent_class agent = ParserAgent"
    by (auto simp: initialize_agent_def construct_parser configure_def hasattr_def
          split: option.splits)
  with assms a show ?thesis
    by (auto simp: agent_table_def split: sum.splits)
qed

lemma configure_each_parser_first:
  assumes "agent_class agent = ParserAgent"
  shows "\<exists>r rest'. configure_each E ((n, agent) # rest) = (r, (n, agent) # rest')"
  using parser_hasattr [OF assms] by (auto split: prod.splits)

lemma interview_each_parser_first:
  assumes "agent_class agent = ParserAgent"
  shows "\<exists>agents' logs'. interview_each E ((n, agent) # rest) logs =
           (Some (Exception (ValueError (''Error en configuracion del agente '' @ n))), agents', logs')"
  using parser_has_no_configure [OF assms] by (simp add: verify_agent_config_def)

lemma configure_agents_cases:
  assumes "sup_agents self = (n, agent) # rest" "agent_class agent = ParserAgent"
  shows "(\<exists>e self'. configure_agents E data_path self = (Inl e, self')
            \<and> workflow_status self' = workflow_status self)
       \<or> (\<exists>rest' self'. configure_agents E data_path self = (Inr (), self')
            \<and> sup_agents self' = (n, agent) # rest'
            \<and> workflow_status self' = workflow_status self)"
proof -
  from configure_each_parser_first [OF assms(2), of E n rest]
  obtain r rest' where c: "configure_each E ((n, agent) # rest) = (r, (n, agent) # rest')"
    by blast
  show ?thesis
    using assms(1) c
    by (cases r)
       (auto simp: configure_agents_def simp del: configure_each.simps
          split: sum.splits raised.splits)
qed

lemma interview_agents_parser_first:
  assumes "sup_agents self = (n, agent) # rest" "agent_class agent = ParserAgent"
  shows "\<exists>self'. interview_agents E self =
           (Inl (Exception (ValueError (''Error en configuracion del agente '' @ n))), self')
         \<and> workflow_status self' = workflow_status self"
proof -
  from interview_each_parser_first [OF assms(2), of E n rest "sup_log self"]
  obtain agents' logs' where
    "interview_each E ((n, agent) # rest) (sup_log self) =
       (Some (Exception (ValueError (''Error en configuracion del agente '' @ n))), agents', logs')"
    by blast
  with assms(1) show ?thesis
    by (simp add: interview_agents_def del: interview_each.simps)
qed

lemma initialize_workflow_raises:
  "\<exists>e self'. initialize_workflow E now data_path config self = (Inl e, self')
     \<and> workflow_status self' = workflow_status self"
proof (cases "register_agents E config agent_table")
  case (Inl e)
  then show ?thesis by (simp add: initialize_workflow_def Let_def)
next
  case (Inr agents')
  from register_agents_parser_first [OF Inr] obtain agent rest where
    ag: "agents' = (''parser'', agent) # rest" "agent_class agent = ParserAgent"
    by blast
  let ?self1 = "self\<lparr>sup_config := Some config,
                       sup_log := sup_log self
                         @ [LogInfo ''Iniciando workflow de analisis oceanografico''],
                       sup_agents := agents'\<rparr>"
  have s1: "sup_agents ?self1 = (''parser'', agent) # rest" using ag by simp
  from configure_agents_cases [OF s1 ag(2), of E data_path]
  show ?thesis
  proof
    assume "\<exists>e self'. configure_agents E data_path ?self1 = (Inl e, self')
              \<and> workflow_status self' = workflow_status ?self1"
    then show ?thesis using Inr by (auto simp: initialize_workflow_def Let_def)
  next
    assume "\<exists>rest' self'. configure_agents E data_path ?self1 = (Inr (), self')
              \<and> sup_agents self' = (''parser'', agent) # rest'
              \<and> workflow_status self' = workflow_status ?self1"
    then obtain rest' self2 where
      c: "configure_agents E data_path ?self1 = (Inr (), self2)"
         "sup_agents self2 = (''parser'', agent) # rest'"
         "workflow_status self2 = workflow_status ?self1"
      by blast
    from interview_agents_parser_first [OF c(2) ag(2), of E] obtain self3 where
      i: "interview_agents E self2 =
            (Inl (Exception (ValueError (''Error en configuracion del agente '' @ ''parser''))), self3)"
         "workflow_status self3 = workflow_status self2"
      by blast
    with c Inr show ?thesis by (simp add: initialize_workflow_def Let_def)
  qed
qed


lemma no_optional_methods:
  "\<not> hasattr agent ''set_data_path'' \<and> \<not> hasattr agent ''initialize''"
  by (cases "agent_class agent") (simp_all add: hasattr_def)

lemma configure_each_unchanged: "configure_each E agents' = (None, agents')"
  by (induction agents') (auto simp: no_optional_methods)

lemma configure_agents_path_exists:
  "path_exists E data_path = Inr True \<Longrightarrow> configure_agents E data_path self = (Inr (), self)"
  by (simp add: configure_agents_def configure_each_unchanged)

lemma configure_agents_missing_path:
  "path_exists E data_path = Inr False \<Longrightarrow>
   configure_agents E data_path self =
     (Inl (Exception (FileNotFoundError
        (''No se encontro el archivo de datos: '' @ data_path))),
      self\<lparr>sup_log := sup_log self
              @ [ErrorConfiguringAgents
                   (FileNotFoundError
                      (''No se encontro el archivo de datos: '' @ data_path))]\<rparr>)"
  by (simp add: configure_agents_def)

lemma initialize_workflow_data:
  "config ''data'' = Some options \<Longrightarrow>
   fst (initialize_workflow E now data_path config self)
     = Inl (Exception (AttributeError ''configure''))"
  by (simp add: initialize_workflow_def Let_def register_agents_data)

lemma initialize_workflow_interview:
  assumes reg: "register_agents E config agent_table = Inr agents'"
    and path: "path_exists E data_path = Inr True"
  shows "fst (initialize_workflow E now data_path config self)
           = Inl (Exception (ValueError ''Error en configuracion del agente parser''))"
proof -
  from register_agents_parser_first [OF reg] obtain agent rest where
    ag: "agents' = (''parser'', agent) # rest" "agent_class agent = ParserAgent"
    by blast
  let ?self1 = "self\<lparr>sup_config := Some config,
                       sup_log := sup_log self
                         @ [LogInfo ''Iniciando workflow de analisis oceanografico''],
                       sup_agents := agents'\<rparr>"
  have s1: "sup_agents ?self1 = (''parser'', agent) # rest" using ag by simp
  from interview_agents_parser_first [OF s1 ag(2), of E] obtain self3 where
    "interview_agents E ?self1 =
       (Inl (Exception (ValueError (''Error en configuracion del agente '' @ ''parser''))), self3)"
    by blast
  with reg configure_agents_path_exists [OF path, of ?self1]
  show ?thesis by (simp add: initialize_workflow_def Let_def)
qed

text \<open>
  Claim C9, as the code has it. For every environment, configuration and data path,
  \<open>initialize_workflow\<close> raises and leaves \<open>workflow_status\<close> as it was: no run
  reaches the status \<open>initialized\<close>. With a section \<open>data\<close> in the configuration
  the exception is the \<open>AttributeError\<close> of \<open>configure\<close>, which \<open>ParserAgent\<close>
  does not define. Without it, when no constructor and no \<open>configure\<close> of another
  agent raises and the data path exists, the parser fails \<open>_verify_agent_config\<close> and
  the exception is the \<open>ValueError\<close> of \<open>_interview_agents\<close>.
\<close>

theorem initialize_workflow_never_initialized:
  "(\<exists>e self'. initialize_workflow E now data_path config self = (Inl e, self')
       \<and> workflow_status self' = workflow_status self)
   \<and> (config ''data'' \<noteq> None \<longrightarrow>
        fst (initialize_workflow E now data_path config self)
          = Inl (Exception (AttributeError ''configure'')))
   \<and> (config ''data'' = None
        \<and> (\<exists>agents'. register_agents E config agent_table = Inr agents')
        \<and> path_exists E data_path = Inr True \<longrightarrow>
        fst (initialize_workflow E now data_path config self)
          = Inl (Exception (ValueError ''Error en configuracion del agente parser'')))"
  using initialize_workflow_raises [of E now data_path config self]
        initialize_workflow_data [of config _ E now data_path self]
        initialize_workflow_interview [of E config _ data_path now self]
  by blast

theorem initialize_workflow_never_initialized_witness:
  "fst (initialize_workflow keyed_environment 0 ''data/sample_ctd.csv'' Map.empty new_supervisor)
     = Inl (Exception (ValueError ''Error en configuracion del agente parser''))
   \<and> fst (initialize_workflow keyed_environment 0 ''data/sample_ctd.csv''
            [''data'' \<mapsto> [''encoding'' \<mapsto> 8]] new_supervisor)
     = Inl (Exception (AttributeError ''configure''))"
proof -
  have reg: "\<exists>agents'. register_agents keyed_environment Map.empty agent_table = Inr agents'"
    by (simp add: agent_table_def initialize_agent_def construct_def keyed_environment_def
          bare_environment_def)
  have path: "path_exists keyed_environment ''data/sample_ctd.csv'' = Inr True"
    by (simp add: keyed_environment_def bare_environment_def)
  from initialize_workflow_never_initialized
         [of keyed_environment 0 "''data/sample_ctd.csv''" Map.empty new_supervisor]
       reg path
  have a: "fst (initialize_workflow keyed_environment 0 ''data/sample_ctd.csv'' Map.empty
                  new_supervisor)
             = Inl (Exception (ValueError ''Error en configuracion del agente parser''))"
    by simp
  from initialize_workflow_never_initialized
         [of keyed_environment 0 "''data/sample_ctd.csv''"
             "[''data'' \<mapsto> [''encoding'' \<mapsto> 8]]" new_supervisor]
  have b: "fst (initialize_workflow keyed_environment 0 ''data/sample_ctd.csv''
                  [''data'' \<mapsto> [''encoding'' \<mapsto> 8]] new_supervisor)
             = Inl (Exception (AttributeError ''configure''))"
    by simp
  from a b show ?thesis by simp
qed

text \<open>
  Without a section \<open>data\<close> and without an API key in the environment, the exception
  is the \<open>ValueError\<close> of \<open>ResearcherAgent.__init__\<close>: it is raised while the
  dictionary of the agents is built, \<open>self.agents\<close> is still empty and the log holds
  no record of \<open>_interview_agents\<close>, which is never reached.
\<close>

theorem initialize_workflow_researcher_raises_first:
  "initialize_workflow bare_environment 0 ''data/sample_ctd.csv'' Map.empty new_supervisor
     = (Inl (Exception
          (ValueError ''No se encontro TAVILY_API_KEY en las variables de entorno'')),
        new_supervisor\<lparr>sup_config := Some Map.empty,
                       sup_log := [LogInfo ''Iniciando workflow de analisis oceanografico'']\<rparr>)"
  by (simp add: initialize_workflow_def Let_def agent_table_def initialize_agent_def
        construct_def bare_environment_def new_supervisor_def)

subsection \<open>Configuration of an agent\<close>

lemma copy_keys_lookup:
  "copy_keys keys config self_config k =
     (if k \<in> set keys \<and> config k \<noteq> None then config k else self_config k)"
  by (induction keys arbitrary: self_config) (auto split: option.splits)

text \<open>\<open>ParserAgent\<close> defines no \<open>configure\<close>: the call raises.\<close>

lemma parser_configure_raises:
  "agent_class agent = ParserAgent \<Longrightarrow> configure E agent options = Inl (AttributeError ''configure'')"
  by (simp add: configure_def hasattr_def)

text \<open>
  Claim C5, as the code has it. For the six classes whose \<open>configure\<close> is
  \<open>self.config.update(config)\<close>, the call succeeds for every options map, and
  afterwards the agent's configuration maps every key of the options to the supplied
  value and every other key to the value it had. \<open>WaterMassAgent.configure\<close> succeeds
  too when the conversion of \<open>reference_masses\<close> does; it takes the converted
  \<open>reference_masses\<close> and the keys \<open>min_points\<close>, \<open>min_fraction\<close> and
  \<open>max_distance\<close> from the options and leaves every other key as it was.
\<close>

theorem configure_merges_options:
  "(agent_class agent \<in> {QAAgent, AnalystAgent, StatsAgent, ReportAgent, PosterAgent,
                           ResearcherAgent} \<longrightarrow>
      configure E agent options = Inr (agent\<lparr>agent_config := agent_config agent ++ options\<rparr>)
      \<and> (\<forall>k \<in> dom options. (agent_config agent ++ options) k = options k)
      \<and> (\<forall>k. k \<notin> dom options \<longrightarrow> (agent_config agent ++ options) k = agent_config agent k))
   \<and> (agent_class agent = WaterMassAgent
        \<and> (\<forall>masses. options ''reference_masses'' = Some masses \<longrightarrow>
               make_reference_masses E masses = Inr defs) \<longrightarrow>
      (\<exists>agent'. configure E agent options = Inr agent'
         \<and> agent_class agent' = WaterMassAgent
         \<and> (\<forall>k. agent_config agent' k =
               (if k \<in> {''min_points'', ''min_fraction'', ''max_distance''}
                   \<and> options k \<noteq> None then options k
                else if k = ''reference_masses'' \<and> options k \<noteq> None then Some defs
                else agent_config agent k))))"
proof (intro conjI impI)
  assume c: "agent_class agent \<in> {QAAgent, AnalystAgent, StatsAgent, ReportAgent,
                                    PosterAgent, ResearcherAgent}"
  then have "hasattr agent ''configure''" "agent_class agent \<noteq> WaterMassAgent"
    by (auto simp: hasattr_def)
  then show "configure E agent options
               = Inr (agent\<lparr>agent_config := agent_config agent ++ options\<rparr>)"
    by (simp add: configure_def)
  show "\<forall>k \<in> dom options. (agent_config agent ++ options) k = options k"
    by (auto simp: map_add_def)
  show "\<forall>k. k \<notin> dom options \<longrightarrow> (agent_config agent ++ options) k = agent_config agent k"
    by (auto simp: map_add_def split: option.splits)
next
  assume w: "agent_class agent = WaterMassAgent
        \<and> (\<forall>masses. options ''reference_masses'' = Some masses \<longrightarrow>
               make_reference_masses E masses = Inr defs)"
  then have h: "hasattr agent ''configure''" by (simp add: hasattr_def)
  show "\<exists>agent'. configure E agent options = Inr agent'
         \<and> agent_class agent' = WaterMassAgent
         \<and> (\<forall>k. agent_config agent' k =
               (if k \<in> {''min_points'', ''min_fraction'', ''max_distance''}
                   \<and> options k \<noteq> None then options k
                else if k = ''reference_masses'' \<and> options k \<noteq> None then Some defs
                else agent_config agent k))"
  proof (cases "options ''reference_masses''")
    case None
    with w h show ?thesis
      by (auto simp: configure_def copy_keys_lookup simp del: copy_keys.simps)
  next
    case (Some masses)
    with w have "make_reference_masses E masses = Inr defs" by simp
    with Some w h show ?thesis
      by (auto simp: configure_def copy_keys_lookup simp del: copy_keys.simps)
  qed
qed

theorem configure_merges_options_witness:
  "configure bare_environment \<lparr>agent_class = QAAgent, agent_config = [''max_gap'' \<mapsto> 100]\<rparr>
       [''outlier_threshold'' \<mapsto> 3, ''new_key'' \<mapsto> 1]
     = Inr \<lparr>agent_class = QAAgent,
            agent_config = [''max_gap'' \<mapsto> 100] ++ [''outlier_threshold'' \<mapsto> 3, ''new_key'' \<mapsto> 1]\<rparr>"
  using configure_merges_options
    [of "\<lparr>agent_class = QAAgent, agent_config = [''max_gap'' \<mapsto> 100]\<rparr>" bare_environment
        "[''outlier_threshold'' \<mapsto> 3, ''new_key'' \<mapsto> 1]" 0]
  by simp

text \<open>
  \<open>WaterMassAgent.configure\<close> on the options \<open>{clusters: 3, min_points: 20}\<close>:
  \<open>min_points\<close> is taken, the key \<open>clusters\<close> is not in the configuration
  afterwards.
\<close>

theorem water_mass_configure_drops_unknown_key:
  "(case configure bare_environment
           \<lparr>agent_class = WaterMassAgent, agent_config = [''min_points'' \<mapsto> 10]\<rparr>
           [''clusters'' \<mapsto> 3, ''min_points'' \<mapsto> 20] of
      Inl e \<Rightarrow> None
    | Inr agent' \<Rightarrow> Some (agent_config agent' ''clusters'', agent_config agent' ''min_points''))
   = Some (None, Some 20)"
  by (simp add: configure_def hasattr_def)


end
